theory Spec2Isabelle
  imports Complex_Main "HOL-Library.Sublist"
begin

section \<open>Python values, strings and exceptions\<close>

text \<open>
  The values a decoded JSON body can hold (\<open>resp.json()\<close>): \<open>None\<close>, booleans, integers,
  floats, strings, lists and dictionaries with string keys. A dictionary is an association
  list read with \<open>map_of\<close>. Non-finite floats are not represented; the code only looks at the
  truth value of a float.
\<close>

datatype pyval =
    PNone
  | PBool bool
  | PInt int
  | PFloat real
  | PStr string
  | PList "pyval list"
  | PDict "(string \<times> pyval) list"

text \<open>An exception is known to the code only through \<open>str(e)\<close>.\<close>

datatype exn = Exn (message: string)

text \<open>Python truth value testing, as used by \<open>not x\<close>, \<open>x or y\<close> and \<open>x and y\<close>.\<close>

fun truthy :: "pyval \<Rightarrow> bool" where
  "truthy PNone = False"
| "truthy (PBool b) = b"
| "truthy (PInt i) = (i \<noteq> 0)"
| "truthy (PFloat r) = (r \<noteq> 0)"
| "truthy (PStr s) = (s \<noteq> [])"
| "truthy (PList xs) = (xs \<noteq> [])"
| "truthy (PDict kvs) = (kvs \<noteq> [])"

fun type_name :: "pyval \<Rightarrow> string" where
  "type_name PNone = ''NoneType''"
| "type_name (PBool b) = ''bool''"
| "type_name (PInt i) = ''int''"
| "type_name (PFloat r) = ''float''"
| "type_name (PStr s) = ''str''"
| "type_name (PList xs) = ''list''"
| "type_name (PDict kvs) = ''dict''"

text \<open>The AttributeError raised by a method call on a value whose type lacks the method.\<close>

definition attribute_error :: "pyval \<Rightarrow> string \<Rightarrow> exn" where
  "attribute_error v a =
     Exn (CHR 0x27 # type_name v @ CHR 0x27 # '' object has no attribute '' @ CHR 0x27 # a @ [CHR 0x27])"

text \<open>\<open>d.get(k)\<close>: the value under \<open>k\<close>, \<open>None\<close> when the key is absent; only a dict has \<open>get\<close>.\<close>

definition py_get :: "pyval \<Rightarrow> string \<Rightarrow> exn + pyval" where
  "py_get d k =
     (case d of
        PDict kvs \<Rightarrow> Inr (case map_of kvs k of None \<Rightarrow> PNone | Some v \<Rightarrow> v)
      | _ \<Rightarrow> Inl (attribute_error d ''get''))"

text \<open>Sequencing of statements that may raise: the first exception ends the sequence.\<close>

definition and_then :: "exn + 'a \<Rightarrow> ('a \<Rightarrow> exn + 'b) \<Rightarrow> exn + 'b" where
  "and_then r f = (case r of Inl e \<Rightarrow> Inl e | Inr v \<Rightarrow> f v)"

text \<open>\<open>d.get(k) or {}\<close>.\<close>

definition get_or_empty :: "pyval \<Rightarrow> string \<Rightarrow> exn + pyval" where
  "get_or_empty d k =
     (case py_get d k of
        Inl e \<Rightarrow> Inl e
      | Inr v \<Rightarrow> Inr (if truthy v then v else PDict []))"

subsection \<open>String methods\<close>

text \<open>\<open>needle in hay\<close> on strings: \<open>needle\<close> occurs as a contiguous substring.\<close>

fun str_contains :: "string \<Rightarrow> string \<Rightarrow> bool" where
  "str_contains needle [] = (needle = [])"
| "str_contains needle (c # cs) = (prefix needle (c # cs) \<or> str_contains needle cs)"

text \<open>
  \<open>s.lower()\<close>. The letters A to Z are mapped to a to z; no other character of the
  8-bit range lowers to an ASCII letter, so substring tests against ASCII text agree.
\<close>

definition char_lower :: "char \<Rightarrow> char" where
  "char_lower c =
     (case map_of (zip ''ABCDEFGHIJKLMNOPQRSTUVWXYZ'' ''abcdefghijklmnopqrstuvwxyz'') c of
        Some l \<Rightarrow> l
      | None \<Rightarrow> c)"

definition str_lower :: "string \<Rightarrow> string" where
  "str_lower s = map char_lower s"

definition endswith :: "string \<Rightarrow> string \<Rightarrow> bool" where
  "endswith s sfx = suffix sfx s"

definition startswith :: "string \<Rightarrow> string \<Rightarrow> bool" where
  "startswith s pfx = prefix pfx s"

text \<open>\<open>s.rstrip("/")\<close>: every trailing slash is removed.\<close>

definition rstrip_slash :: "string \<Rightarrow> string" where
  "rstrip_slash s = rev (dropWhile (\<lambda>c. c = CHR ''/'') (rev s))"

text \<open>\<open>s.split(c, 1)\<close> for a string that contains \<open>c\<close>: the text before and after the first \<open>c\<close>.\<close>

definition split_once :: "char \<Rightarrow> string \<Rightarrow> string \<times> string" where
  "split_once c s = (takeWhile (\<lambda>x. x \<noteq> c) s, tl (dropWhile (\<lambda>x. x \<noteq> c) s))"

text \<open>Decimal rendering of an integer, as an f-string prints it.\<close>

fun str_nat :: "nat \<Rightarrow> string" where
  "str_nat n =
     (if n < 10 then [''0123456789'' ! n]
      else str_nat (n div 10) @ [''0123456789'' ! (n mod 10)])"

declare str_nat.simps [simp del]

definition str_int :: "int \<Rightarrow> string" where
  "str_int i = (if i < 0 then CHR ''-'' # str_nat (nat (- i)) else str_nat (nat i))"

section \<open>The runtime the checker calls into\<close>

text \<open>
  A \<open>datetime\<close> value: its wall-clock fields as microseconds since 0001-01-01T00:00:00, and
  the UTC offset of its \<open>tzinfo\<close> in microseconds (\<open>None\<close> for a naive value).
\<close>

record datetime =
  wall :: int
  utcoffset :: "int option"

text \<open>An HTTP response: its status code and what \<open>resp.json()\<close> yields or raises.\<close>

record response =
  resp_status_code :: int
  resp_json :: "exn + pyval"

text \<open>
  What the checker obtains from libraries and the network, taken as parameters:
  \<^item> \<open>http_get url\<close> is \<open>httpx.get(url, timeout=timeout)\<close>, a response or a raised exception
    (the timeout is one configured constant of a run);
  \<^item> \<open>fromisoformat s\<close> is \<open>datetime.fromisoformat(s)\<close>;
  \<^item> \<open>total_ms d\<close> is \<open>int(td.total_seconds() * 1000)\<close> for a \<open>timedelta\<close> of \<open>d\<close>
    microseconds, a floating-point computation;
  \<^item> \<open>py_repr v\<close> is \<open>str(v)\<close> for floats, lists and dictionaries.
\<close>

record runtime =
  http_get :: "string \<Rightarrow> exn + response"
  fromisoformat :: "string \<Rightarrow> exn + datetime"
  total_ms :: "int \<Rightarrow> int"
  py_repr :: "pyval \<Rightarrow> string"

text \<open>How an f-string renders a value.\<close>

definition format_value :: "runtime \<Rightarrow> pyval \<Rightarrow> string" where
  "format_value rt v =
     (case v of
        PStr s \<Rightarrow> s
      | PNone \<Rightarrow> ''None''
      | PBool b \<Rightarrow> (if b then ''True'' else ''False'')
      | PInt i \<Rightarrow> str_int i
      | _ \<Rightarrow> py_repr rt v)"

text \<open>
  \<open>dt.astimezone(timezone.utc)\<close> on an aware value. A value already in UTC is returned as it
  is; otherwise the offset is subtracted, and a result outside the years 1 to 9999 raises
  OverflowError.
\<close>

definition max_wall :: int where
  "max_wall = 315537897600000000"

definition astimezone_utc :: "int \<Rightarrow> int \<Rightarrow> exn + int" where
  "astimezone_utc w off =
     (if off = 0 then Inr w
      else if 0 \<le> w - off \<and> w - off < max_wall then Inr (w - off)
      else Inl (Exn ''date value out of range''))"

section \<open>Time and delay utility (checker.py, lines 9 to 58)\<close>

text \<open>Lines 19 to 21: a trailing \<open>Z\<close> becomes \<open>+00:00\<close>.\<close>

definition z_to_offset :: "string \<Rightarrow> string" where
  "z_to_offset ts = (if endswith ts ''Z'' then butlast ts @ ''+00:00'' else ts)"

text \<open>Lines 23 to 36: the fraction after the first dot is cut to six characters.\<close>

definition cut_fraction :: "string \<Rightarrow> string" where
  "cut_fraction ts =
     (if CHR ''.'' \<in> set ts then
        (let (before, after) = split_once (CHR ''.'') ts in
         if CHR ''+'' \<in> set after then
           (let (frac, tz) = split_once (CHR ''+'') after
            in before @ ''.'' @ take 6 frac @ ''+'' @ tz)
         else if CHR ''-'' \<in> set after then
           (let (frac, tz) = split_once (CHR ''-'') after
            in before @ ''.'' @ take 6 frac @ ''-'' @ tz)
         else before @ ''.'' @ take 6 after)
      else ts)"

text \<open>The text handed to \<open>datetime.fromisoformat\<close> on line 39.\<close>

definition normalized_ts :: "string \<Rightarrow> string" where
  "normalized_ts ts = cut_fraction (z_to_offset ts)"

text \<open>
  Lines 38 to 44: the \<open>try\<close> block. Any exception gives \<open>None\<close>; a naive value is taken as
  UTC; the result is the UTC instant in microseconds since 0001-01-01T00:00:00 UTC.
\<close>

definition parse_normalized :: "runtime \<Rightarrow> string \<Rightarrow> int option" where
  "parse_normalized rt s =
     (case fromisoformat rt s of
        Inl e \<Rightarrow> None
      | Inr dt \<Rightarrow>
          (let off = (case utcoffset dt of None \<Rightarrow> 0 | Some d \<Rightarrow> d) in
           case astimezone_utc (wall dt) off of
             Inl e \<Rightarrow> None
           | Inr t \<Rightarrow> Some t))"

text \<open>
  \<open>_parse_block_time\<close>. The argument is whatever the JSON body held under the time key:
  a falsy value gives \<open>None\<close>, and a truthy value that is not a string raises on
  \<open>ts.endswith\<close>, outside the \<open>try\<close> block.
\<close>

definition parse_block_time :: "runtime \<Rightarrow> pyval \<Rightarrow> exn + int option" where
  "parse_block_time rt ts =
     (if \<not> truthy ts then Inr None
      else case ts of
             PStr s \<Rightarrow> Inr (parse_normalized rt (normalized_ts s))
           | _ \<Rightarrow> Inl (attribute_error ts ''endswith''))"

text \<open>
  \<open>_calc_block_delay_ms\<close>; \<open>now\<close> is the reading of \<open>datetime.now(timezone.utc)\<close> on line 53,
  in microseconds since 0001-01-01T00:00:00 UTC.
\<close>

definition calc_block_delay_ms :: "runtime \<Rightarrow> int \<Rightarrow> pyval \<Rightarrow> exn + int option" where
  "calc_block_delay_ms rt now block_time_str =
     (if \<not> truthy block_time_str then Inr None
      else case parse_block_time rt block_time_str of
             Inl e \<Rightarrow> Inl e
           | Inr None \<Rightarrow> Inr None
           | Inr (Some dt) \<Rightarrow>
               (let diff_ms = total_ms rt (now - dt)
                in Inr (Some (if diff_ms < 0 then 0 else diff_ms))))"

section \<open>Error classifier (checker.py, lines 113 to 127 and 195 to 205)\<close>

text \<open>The \<open>except\<close> branch of \<open>check_rpc_endpoint\<close>, lines 114 to 125.\<close>

definition rpc_classify :: "exn \<Rightarrow> string" where
  "rpc_classify e =
     (let msg = message e in
      if str_contains ''handshake operation timed out'' msg then ''TLS_HANDSHAKE_TIMEOUT''
      else if str_contains ''Name or service not known'' msg
              \<or> str_contains ''Temporary failure in name resolution'' msg
           then ''DNS_RESOLUTION_FAILED''
      else if str_contains ''Connection refused'' msg then ''CONNECTION_REFUSED''
      else if str_contains ''timed out'' (str_lower msg) then ''REQUEST_TIMEOUT''
      else ''EXCEPTION: '' @ take 400 msg)"

text \<open>\<open>_normalize_error\<close>, the helper nested in \<open>check_api_endpoint\<close>, lines 195 to 205.\<close>

definition normalize_error :: "exn \<Rightarrow> string" where
  "normalize_error e =
     (let msg = message e in
      if str_contains ''handshake operation timed out'' msg then ''TLS_HANDSHAKE_TIMEOUT''
      else if str_contains ''Name or service not known'' msg
              \<or> str_contains ''Temporary failure in name resolution'' msg
           then ''DNS_RESOLUTION_FAILED''
      else if str_contains ''Connection refused'' msg then ''CONNECTION_REFUSED''
      else if str_contains ''timed out'' (str_lower msg) then ''REQUEST_TIMEOUT''
      else ''EXCEPTION: '' @ take 400 msg)"

section \<open>Protocol probes (checker.py, lines 61 to 253)\<close>

text \<open>
  The uniform result: \<open>is_available\<close>, \<open>http_status_code\<close>, \<open>block_delay_ms\<close>,
  \<open>latest_block_height\<close> (the JSON value as found, \<open>PNone\<close> for null) and \<open>error_message\<close>.
\<close>

type_synonym probe_result = "bool \<times> int option \<times> int option \<times> pyval \<times> string option"

text \<open>
  \<open>expected_chain_id and observed and observed != expected_chain_id\<close>, the condition of
  lines 101 and 162.
\<close>

definition chain_id_mismatch :: "string option \<Rightarrow> pyval \<Rightarrow> bool" where
  "chain_id_mismatch expected observed =
     (case expected of
        None \<Rightarrow> False
      | Some x \<Rightarrow> x \<noteq> [] \<and> truthy observed \<and> observed \<noteq> PStr x)"

definition mismatch_message :: "runtime \<Rightarrow> string option \<Rightarrow> pyval \<Rightarrow> string" where
  "mismatch_message rt expected observed =
     ''CHAIN_ID_MISMATCH: expected='' @ (case expected of None \<Rightarrow> ''None'' | Some x \<Rightarrow> x)
       @ '', got='' @ format_value rt observed"

text \<open>
  Lines 100 to 111 of \<open>check_rpc_endpoint\<close> and lines 162 to 171 of
  \<open>_check_rest_block_latest\<close> are the same statements up to the names of the variables:
  the chain id test, then the delay.
\<close>

definition block_verdict ::
  "runtime \<Rightarrow> int \<Rightarrow> int \<Rightarrow> string option \<Rightarrow> pyval \<Rightarrow> pyval \<Rightarrow> pyval \<Rightarrow> exn + probe_result" where
  "block_verdict rt now http_status expected chain_id height time_str =
     (if chain_id_mismatch expected chain_id then
        (let err = mismatch_message rt expected chain_id in
         case calc_block_delay_ms rt now time_str of
           Inl e \<Rightarrow> Inl e
         | Inr delay_ms \<Rightarrow> Inr (False, Some http_status, delay_ms, height, Some err))
      else
        (case calc_block_delay_ms rt now time_str of
           Inl e \<Rightarrow> Inl e
         | Inr None \<Rightarrow> Inr (False, Some http_status, None, height, Some ''INVALID_BLOCK_TIME'')
         | Inr (Some delay_ms) \<Rightarrow> Inr (True, Some http_status, Some delay_ms, height, None)))"

text \<open>Lines 92 to 98: the observed chain id, the height and the block time of a status body.\<close>

definition rpc_fields :: "pyval \<Rightarrow> exn + (pyval \<times> pyval \<times> pyval)" where
  "rpc_fields data =
     and_then (get_or_empty data ''result'') (\<lambda>result.
     and_then (get_or_empty result ''node_info'') (\<lambda>node_info.
     and_then (get_or_empty result ''sync_info'') (\<lambda>sync_info.
     and_then (py_get node_info ''network'') (\<lambda>network.
     and_then (py_get sync_info ''latest_block_height'') (\<lambda>latest_block_height.
     and_then (py_get sync_info ''latest_block_time'') (\<lambda>latest_block_time_str.
     Inr (network, latest_block_height, latest_block_time_str)))))))"

text \<open>The \<open>try\<close> block of \<open>check_rpc_endpoint\<close>, lines 81 to 111.\<close>

definition rpc_try :: "runtime \<Rightarrow> int \<Rightarrow> string \<Rightarrow> string option \<Rightarrow> exn + probe_result" where
  "rpc_try rt now url expected_chain_id =
     (case http_get rt url of
        Inl e \<Rightarrow> Inl e
      | Inr resp \<Rightarrow>
          (let http_status = resp_status_code resp in
           if http_status < 200 \<or> http_status \<ge> 300 then
             Inr (False, Some http_status, None, PNone, Some (''HTTP_STATUS_'' @ str_int http_status))
           else
             case resp_json resp of
               Inl e \<Rightarrow> Inr (False, Some http_status, None, PNone, Some (''INVALID_JSON: '' @ message e))
             | Inr data \<Rightarrow>
                 (case rpc_fields data of
                    Inl e \<Rightarrow> Inl e
                  | Inr (network, latest_block_height, latest_block_time_str) \<Rightarrow>
                      block_verdict rt now http_status expected_chain_id
                        network latest_block_height latest_block_time_str)))"

definition check_rpc_endpoint :: "runtime \<Rightarrow> int \<Rightarrow> string \<Rightarrow> string option \<Rightarrow> probe_result" where
  "check_rpc_endpoint rt now base_url expected_chain_id =
     (let url = rstrip_slash base_url @ ''/status'' in
      case rpc_try rt now url expected_chain_id of
        Inr r \<Rightarrow> r
      | Inl e \<Rightarrow> (False, None, None, PNone, Some (rpc_classify e)))"

text \<open>Lines 155 to 160: chain id, height and time of a REST block body.\<close>

definition rest_fields :: "pyval \<Rightarrow> exn + (pyval \<times> pyval \<times> pyval)" where
  "rest_fields data =
     and_then (get_or_empty data ''block'') (\<lambda>block.
     and_then (get_or_empty block ''header'') (\<lambda>header.
     and_then (py_get header ''chain_id'') (\<lambda>chain_id.
     and_then (py_get header ''height'') (\<lambda>height.
     and_then (py_get header ''time'') (\<lambda>time_str.
     Inr (chain_id, height, time_str))))))"

text \<open>
  \<open>_check_rest_block_latest\<close>. It has no \<open>try\<close> around the request, so an exception of
  \<open>httpx.get\<close> or of the field access leaves the function. The second component lists the
  URLs requested, in order.
\<close>

definition check_rest_block_latest ::
  "runtime \<Rightarrow> int \<Rightarrow> string \<Rightarrow> string \<Rightarrow> string option \<Rightarrow> (exn + probe_result) \<times> string list" where
  "check_rest_block_latest rt now base_url path expected_chain_id =
     (let url = rstrip_slash base_url @ path in
      (case http_get rt url of
         Inl e \<Rightarrow> Inl e
       | Inr resp \<Rightarrow>
           (let http_status = resp_status_code resp in
            if http_status < 200 \<or> http_status \<ge> 300 then
              Inr (False, Some http_status, None, PNone, Some (''HTTP_STATUS_'' @ str_int http_status))
            else
              case resp_json resp of
                Inl e \<Rightarrow> Inr (False, Some http_status, None, PNone, Some (''INVALID_JSON: '' @ message e))
              | Inr data \<Rightarrow>
                  (case rest_fields data of
                     Inl e \<Rightarrow> Inl e
                   | Inr (chain_id, height, time_str) \<Rightarrow>
                       block_verdict rt now http_status expected_chain_id chain_id height time_str)),
       [url]))"

text \<open>Lines 229 to 238: the bare GET of the third strategy.\<close>

definition alive_check :: "runtime \<Rightarrow> string \<Rightarrow> (exn + probe_result) \<times> string list" where
  "alive_check rt base_url =
     (let url = rstrip_slash base_url in
      (case http_get rt url of
         Inl e \<Rightarrow> Inl e
       | Inr resp \<Rightarrow>
           (let http_status = resp_status_code resp in
            if http_status < 200 \<or> http_status \<ge> 300 then
              Inr (False, Some http_status, None, PNone, Some (''HTTP_STATUS_'' @ str_int http_status))
            else Inr (True, Some http_status, None, PNone, None)),
       [url]))"

text \<open>Lines 240 to 253: the error reported when all three attempts raised.\<close>

definition most_helpful_error :: "string \<Rightarrow> string \<Rightarrow> string \<Rightarrow> string" where
  "most_helpful_error err1 err2 err3 =
     (case find (\<lambda>err. startswith err ''DNS_'') [err1, err2, err3] of
        Some err \<Rightarrow> err
      | None \<Rightarrow>
     (case find (\<lambda>err. startswith err ''TLS_'') [err1, err2, err3] of
        Some err \<Rightarrow> err
      | None \<Rightarrow>
     (case find (\<lambda>err. startswith err ''REQUEST_TIMEOUT'') [err1, err2, err3] of
        Some err \<Rightarrow> err
      | None \<Rightarrow>
          if err1 \<noteq> [] then err1
          else if err2 \<noteq> [] then err2
          else if err3 \<noteq> [] then err3
          else ''UNKNOWN_ERROR'')))"

definition new_rest_path :: string where
  "new_rest_path = ''/cosmos/base/tendermint/v1beta1/blocks/latest''"

definition old_rest_path :: string where
  "old_rest_path = ''/blocks/latest''"

text \<open>\<open>check_api_endpoint\<close>: the result and the URLs requested, in order.\<close>

definition check_api_endpoint ::
  "runtime \<Rightarrow> int \<Rightarrow> string \<Rightarrow> string option \<Rightarrow> probe_result \<times> string list" where
  "check_api_endpoint rt now base_url expected_chain_id =
     (case check_rest_block_latest rt now base_url new_rest_path expected_chain_id of
        (Inr r, log1) \<Rightarrow> (r, log1)
      | (Inl e1, log1) \<Rightarrow>
          (let err1 = normalize_error e1 in
           case check_rest_block_latest rt now base_url old_rest_path expected_chain_id of
             (Inr r, log2) \<Rightarrow> (r, log1 @ log2)
           | (Inl e2, log2) \<Rightarrow>
               (let err2 = normalize_error e2 in
                case alive_check rt base_url of
                  (Inr r, log3) \<Rightarrow> (r, log1 @ log2 @ log3)
                | (Inl e3, log3) \<Rightarrow>
                    (let err3 = normalize_error e3 in
                     ((False, None, None, PNone, Some (most_helpful_error err1 err2 err3)),
                      log1 @ log2 @ log3)))))"

section \<open>Batch runner and scheduler loop (runner.py)\<close>

text \<open>The columns of \<open>Endpoint\<close> and \<open>Network\<close> that the runner reads.\<close>

record endpoint =
  ep_id :: int
  ep_network_id :: int
  ep_name :: string
  ep_type :: string
  ep_url :: string
  ep_enabled :: bool

record network =
  net_id :: int
  net_chain_id :: string

text \<open>
  A \<open>Check\<close> row, with the columns of models/check.py that the runner assigns on lines
  65 to 73. \<open>checked_at\<close> is in microseconds, as the clock readings are.
\<close>

record check_row =
  endpoint_id :: int
  is_available :: bool
  status_code :: "int option"
  block_delay_ms :: "int option"
  last_block_height :: pyval
  error_message :: "string option"
  checked_at :: int

text \<open>
  Modelled from the spec: the class \<open>EndpointStatus\<close>, whose file
  models/endpoint_status.py is not among the sources. The spec gives it the field shape of
  \<open>Check\<close>, and these are the columns the runner assigns on lines 83 to 99.
\<close>

type_synonym endpoint_status_row = check_row

text \<open>
  The tables. \<open>checks\<close> is in insertion order. While a batch runs, the value is the state
  of the session; it becomes durable at the commit on line 113.
\<close>

record database =
  endpoints :: "endpoint list"
  networks :: "network list"
  checks :: "check_row list"
  endpoint_statuses :: "endpoint_status_row list"

text \<open>
  What a batch is run against:
  \<^item> \<open>rpc_probe url expected\<close> and \<open>api_probe url expected\<close> are the calls of
    \<open>check_rpc_endpoint\<close> and \<open>check_api_endpoint\<close> on lines 46 to 63, whose outcome is a
    result tuple or an exception that leaves the call;
  \<^item> \<open>now_utc_at ep\<close> is the reading of \<open>datetime.now(timezone.utc)\<close> on line 43 while
    \<open>ep\<close> is processed;
  \<^item> \<open>batch_limit\<close> is \<open>BATCH_LIMIT\<close>.
\<close>

record batch_env =
  rpc_probe :: "string \<Rightarrow> string option \<Rightarrow> exn + probe_result"
  api_probe :: "string \<Rightarrow> string option \<Rightarrow> exn + probe_result"
  now_utc_at :: "endpoint \<Rightarrow> int"
  batch_limit :: nat

text \<open>Lines 27 to 33: enabled endpoints joined with their network, at most \<open>BATCH_LIMIT\<close>.\<close>

definition enabled_rows :: "database \<Rightarrow> nat \<Rightarrow> (endpoint \<times> network) list" where
  "enabled_rows db limit =
     take limit
       [(ep, net). ep \<leftarrow> endpoints db, net \<leftarrow> networks db,
                   ep_network_id ep = net_id net \<and> ep_enabled ep]"

text \<open>Line 42: \<open>net.chain_id or None\<close>.\<close>

definition expected_chain_id_of :: "network \<Rightarrow> string option" where
  "expected_chain_id_of net = (if net_chain_id net = [] then None else Some (net_chain_id net))"

text \<open>Lines 45 to 63: the probe chosen by the type of the endpoint.\<close>

definition probe_endpoint :: "batch_env \<Rightarrow> endpoint \<Rightarrow> network \<Rightarrow> exn + probe_result" where
  "probe_endpoint env ep net =
     (let expected_chain_id = expected_chain_id_of net in
      if ep_type ep = ''rpc'' then rpc_probe env (ep_url ep) expected_chain_id
      else if ep_type ep = ''api'' then api_probe env (ep_url ep) expected_chain_id
      else api_probe env (ep_url ep) None)"

text \<open>
  Lines 76 to 99: the first status row of the endpoint is overwritten field by field; when
  there is none, a new row is added.
\<close>

fun upsert_status ::
  "endpoint_status_row \<Rightarrow> endpoint_status_row list \<Rightarrow> endpoint_status_row list" where
  "upsert_status new [] = [new]"
| "upsert_status new (status # rest) =
     (if endpoint_id status = endpoint_id new then
        status\<lparr>is_available := is_available new,
               status_code := status_code new,
               block_delay_ms := block_delay_ms new,
               last_block_height := last_block_height new,
               error_message := error_message new,
               checked_at := checked_at new\<rparr> # rest
      else status # upsert_status new rest)"

text \<open>Lines 42 to 99: the body of the loop for one row.\<close>

definition process_endpoint :: "batch_env \<Rightarrow> database \<Rightarrow> endpoint \<times> network \<Rightarrow> exn + database" where
  "process_endpoint env db row =
     (let ep = fst row; net = snd row; now_utc = now_utc_at env ep in
      case probe_endpoint env ep net of
        Inl e \<Rightarrow> Inl e
      | Inr (is_ok, http_status, delay_ms, block_height, error_msg) \<Rightarrow>
          (let check = \<lparr>endpoint_id = ep_id ep,
                        is_available = is_ok,
                        status_code = http_status,
                        block_delay_ms = delay_ms,
                        last_block_height = block_height,
                        error_message = error_msg,
                        checked_at = now_utc\<rparr>
           in Inr (db\<lparr>checks := checks db @ [check],
                       endpoint_statuses := upsert_status check (endpoint_statuses db)\<rparr>)))"

text \<open>Line 41: the \<open>for\<close> loop. It has no \<open>try\<close>: an exception ends it.\<close>

fun process_rows :: "batch_env \<Rightarrow> database \<Rightarrow> (endpoint \<times> network) list \<Rightarrow> exn + database" where
  "process_rows env db [] = Inr db"
| "process_rows env db (row # rows) =
     (case process_endpoint env db row of
        Inl e \<Rightarrow> Inl e
      | Inr db' \<Rightarrow> process_rows env db' rows)"

text \<open>
  \<open>process_batch\<close>: \<open>Inr\<close> is the state committed on line 113, \<open>Inl\<close> an exception that left
  the function before the commit.
\<close>

definition process_batch :: "batch_env \<Rightarrow> database \<Rightarrow> exn + database" where
  "process_batch env db =
     (let rows = enabled_rows db (batch_limit env) in
      if rows = [] then Inr db else process_rows env db rows)"

text \<open>
  One pass of the \<open>while True\<close> loop of \<open>main_loop\<close>, lines 124 to 133: on an exception the
  session is rolled back, so the durable state is the one before the batch.
\<close>

definition main_loop_iteration :: "batch_env \<Rightarrow> database \<Rightarrow> database" where
  "main_loop_iteration env db =
     (case process_batch env db of
        Inr db' \<Rightarrow> db'
      | Inl e \<Rightarrow> db)"

text \<open>
  The durable state after the first \<open>n\<close> passes of \<open>main_loop\<close>; \<open>envs k\<close> is what pass \<open>k\<close>
  meets. The loop itself never returns.
\<close>

fun main_loop :: "(nat \<Rightarrow> batch_env) \<Rightarrow> nat \<Rightarrow> database \<Rightarrow> database" where
  "main_loop envs 0 db = db"
| "main_loop envs (Suc n) db = main_loop_iteration (envs n) (main_loop envs n db)"

text \<open>
  The runner with the probes of checker.py: \<open>probe_now url\<close> is the clock reading inside
  the probe of \<open>url\<close>.
\<close>

definition checker_env ::
  "runtime \<Rightarrow> (string \<Rightarrow> int) \<Rightarrow> (endpoint \<Rightarrow> int) \<Rightarrow> nat \<Rightarrow> batch_env" where
  "checker_env rt probe_now batch_now limit =
     \<lparr>rpc_probe = (\<lambda>url expected. Inr (check_rpc_endpoint rt (probe_now url) url expected)),
      api_probe = (\<lambda>url expected. Inr (fst (check_api_endpoint rt (probe_now url) url expected))),
      now_utc_at = batch_now,
      batch_limit = limit\<rparr>"

section \<open>Example inputs\<close>

text \<open>
  A server that answers 200 on the bare base URL and 404 on every other path, the two REST
  block paths among them.
\<close>

definition rest_paths_404_runtime :: runtime where
  "rest_paths_404_runtime =
     \<lparr>http_get = (\<lambda>url.
        if url = ''https://api.example''
          then Inr \<lparr>resp_status_code = 200, resp_json = Inl (Exn ''Expecting value'')\<rparr>
        else Inr \<lparr>resp_status_code = 404, resp_json = Inl (Exn ''Expecting value'')\<rparr>),
      fromisoformat = (\<lambda>s. Inl (Exn ''Invalid isoformat string'')),
      total_ms = (\<lambda>d. d div 1000),
      py_repr = (\<lambda>v. ''?'')\<rparr>"

text \<open>Two enabled RPC endpoints of one network, and no check recorded yet.\<close>

definition endpoint_a :: endpoint where
  "endpoint_a = \<lparr>ep_id = 1, ep_network_id = 1, ep_name = ''a'', ep_type = ''rpc'',
                  ep_url = ''https://rpc-a.example'', ep_enabled = True\<rparr>"

definition endpoint_b :: endpoint where
  "endpoint_b = \<lparr>ep_id = 2, ep_network_id = 1, ep_name = ''b'', ep_type = ''rpc'',
                  ep_url = ''https://rpc-b.example'', ep_enabled = True\<rparr>"

definition hub_network :: network where
  "hub_network = \<lparr>net_id = 1, net_chain_id = ''cosmoshub-4''\<rparr>"

definition two_endpoint_db :: database where
  "two_endpoint_db =
     \<lparr>endpoints = [endpoint_a, endpoint_b], networks = [hub_network],
      checks = [], endpoint_statuses = []\<rparr>"


section \<open>Properties of the error classifier\<close>

lemma normalize_error_cases:
  "normalize_error e = ''TLS_HANDSHAKE_TIMEOUT'' \<or> normalize_error e = ''DNS_RESOLUTION_FAILED''
   \<or> normalize_error e = ''CONNECTION_REFUSED'' \<or> normalize_error e = ''REQUEST_TIMEOUT''
   \<or> normalize_error e = ''EXCEPTION: '' @ take 400 (message e)"
  by (simp add: normalize_error_def Let_def)

lemma rpc_classify_eq: "rpc_classify e = normalize_error e"
  by (simp add: rpc_classify_def normalize_error_def)

lemma startswith_dns:
  "startswith (normalize_error e) ''DNS_'' = (normalize_error e = ''DNS_RESOLUTION_FAILED'')"
  using normalize_error_cases [of e] by (auto simp: startswith_def)

lemma startswith_tls:
  "startswith (normalize_error e) ''TLS_'' = (normalize_error e = ''TLS_HANDSHAKE_TIMEOUT'')"
  using normalize_error_cases [of e] by (auto simp: startswith_def)

lemma startswith_timeout:
  "startswith (normalize_error e) ''REQUEST_TIMEOUT'' = (normalize_error e = ''REQUEST_TIMEOUT'')"
  using normalize_error_cases [of e] by (auto simp: startswith_def)

lemma normalize_error_nonempty: "normalize_error e \<noteq> []"
  using normalize_error_cases [of e] by auto

lemma rpc_transport_failure:
  "http_get rt (rstrip_slash base_url @ ''/status'') = Inl e \<Longrightarrow>
   check_rpc_endpoint rt now base_url expected = (False, None, None, PNone, Some (rpc_classify e))"
  by (simp add: check_rpc_endpoint_def rpc_try_def)

text \<open>
  C6. The classifier is a function of the exception message, so it yields one code. It
  tests the TLS handshake timeout pattern first, then the two DNS patterns, then connection
  refused, then a case-insensitive \<open>timed out\<close>, and otherwise returns \<open>EXCEPTION: \<close>
  followed by the first 400 characters of the message. A message with the TLS pattern is
  \<open>TLS_HANDSHAKE_TIMEOUT\<close> although it also contains \<open>timed out\<close>. The \<open>except\<close> branch of
  the RPC probe and the helper of the API probe classify alike, and the RPC probe reports
  the code of the exception its request raised.
\<close>

theorem error_classifier_precedence:
  "rpc_classify e = normalize_error e
   \<and> (str_contains ''handshake operation timed out'' (message e) \<longrightarrow>
        normalize_error e = ''TLS_HANDSHAKE_TIMEOUT'')
   \<and> (str_contains ''handshake operation timed out'' (message e)
        \<and> str_contains ''timed out'' (str_lower (message e)) \<longrightarrow>
        normalize_error e = ''TLS_HANDSHAKE_TIMEOUT'')
   \<and> (\<not> str_contains ''handshake operation timed out'' (message e)
        \<and> (str_contains ''Name or service not known'' (message e)
             \<or> str_contains ''Temporary failure in name resolution'' (message e)) \<longrightarrow>
        normalize_error e = ''DNS_RESOLUTION_FAILED'')
   \<and> (\<not> str_contains ''handshake operation timed out'' (message e)
        \<and> \<not> str_contains ''Name or service not known'' (message e)
        \<and> \<not> str_contains ''Temporary failure in name resolution'' (message e)
        \<and> str_contains ''Connection refused'' (message e) \<longrightarrow>
        normalize_error e = ''CONNECTION_REFUSED'')
   \<and> (\<not> str_contains ''handshake operation timed out'' (message e)
        \<and> \<not> str_contains ''Name or service not known'' (message e)
        \<and> \<not> str_contains ''Temporary failure in name resolution'' (message e)
        \<and> \<not> str_contains ''Connection refused'' (message e)
        \<and> str_contains ''timed out'' (str_lower (message e)) \<longrightarrow>
        normalize_error e = ''REQUEST_TIMEOUT'')
   \<and> (\<not> str_contains ''handshake operation timed out'' (message e)
        \<and> \<not> str_contains ''Name or service not known'' (message e)
        \<and> \<not> str_contains ''Temporary failure in name resolution'' (message e)
        \<and> \<not> str_contains ''Connection refused'' (message e)
        \<and> \<not> str_contains ''timed out'' (str_lower (message e)) \<longrightarrow>
        normalize_error e = ''EXCEPTION: '' @ take 400 (message e))
   \<and> (http_get rt (rstrip_slash base_url @ ''/status'') = Inl e \<longrightarrow>
        check_rpc_endpoint rt now base_url expected
          = (False, None, None, PNone, Some (normalize_error e)))"
  using rpc_transport_failure [of rt base_url e now expected]
  by (simp add: rpc_classify_eq) (simp add: normalize_error_def)

theorem error_classifier_precedence_witness:
  "str_contains ''handshake operation timed out''
     (message (Exn ''_ssl.c:1000: The handshake operation timed out''))
   \<and> str_contains ''timed out''
        (str_lower (message (Exn ''_ssl.c:1000: The handshake operation timed out'')))
   \<and> normalize_error (Exn ''_ssl.c:1000: The handshake operation timed out'')
        = ''TLS_HANDSHAKE_TIMEOUT''
   \<and> rpc_classify (Exn ''_ssl.c:1000: The handshake operation timed out'')
        = ''TLS_HANDSHAKE_TIMEOUT''
   \<and> normalize_error (Exn ''[Errno -2] Name or service not known'') = ''DNS_RESOLUTION_FAILED''
   \<and> normalize_error (Exn ''[Errno 111] Connection refused'') = ''CONNECTION_REFUSED''
   \<and> normalize_error (Exn ''The read operation timed out'') = ''REQUEST_TIMEOUT''
   \<and> normalize_error (Exn ''boom'') = ''EXCEPTION: boom''
   \<and> check_rpc_endpoint
        \<lparr>http_get = (\<lambda>url. Inl (Exn ''_ssl.c:1000: The handshake operation timed out'')),
         fromisoformat = (\<lambda>s. Inl (Exn ''Invalid isoformat string'')),
         total_ms = (\<lambda>d. d div 1000),
         py_repr = (\<lambda>v. ''?'')\<rparr>
        0 ''https://rpc.example/'' None
        = (False, None, None, PNone, Some ''TLS_HANDSHAKE_TIMEOUT'')"
proof -
  let ?e = "Exn ''_ssl.c:1000: The handshake operation timed out''"
  let ?dns = "Exn ''[Errno -2] Name or service not known''"
  let ?refused = "Exn ''[Errno 111] Connection refused''"
  let ?timeout = "Exn ''The read operation timed out''"
  let ?other = "Exn ''boom''"
  let ?rt = "\<lparr>http_get = (\<lambda>url. Inl (Exn ''_ssl.c:1000: The handshake operation timed out'')),
         fromisoformat = (\<lambda>s. Inl (Exn ''Invalid isoformat string'')),
         total_ms = (\<lambda>d. d div 1000),
         py_repr = (\<lambda>v. ''?'')\<rparr>"
  have h1: "str_contains ''handshake operation timed out'' (message ?e)"
    by simp
  have h2: "str_contains ''timed out'' (str_lower (message ?e))"
    by (simp add: str_lower_def char_lower_def)
  have h3: "http_get ?rt (rstrip_slash ''https://rpc.example/'' @ ''/status'') = Inl ?e"
    by simp
  note c = error_classifier_precedence [of ?e ?rt "''https://rpc.example/''" 0 None]
  from c h1 have a: "normalize_error ?e = ''TLS_HANDSHAKE_TIMEOUT''"
    by blast
  from c have "rpc_classify ?e = normalize_error ?e"
    by blast
  with a have b: "rpc_classify ?e = ''TLS_HANDSHAKE_TIMEOUT''"
    by (simp only:)
  from c h3 have "check_rpc_endpoint ?rt 0 ''https://rpc.example/'' None
                    = (False, None, None, PNone, Some (normalize_error ?e))"
    by blast
  with a have d: "check_rpc_endpoint ?rt 0 ''https://rpc.example/'' None
                    = (False, None, None, PNone, Some ''TLS_HANDSHAKE_TIMEOUT'')"
    by (simp only:)
  have d1: "\<not> str_contains ''handshake operation timed out'' (message ?dns)
            \<and> (str_contains ''Name or service not known'' (message ?dns)
                 \<or> str_contains ''Temporary failure in name resolution'' (message ?dns))"
    by simp
  from d1 error_classifier_precedence [of ?dns ?rt "''https://rpc.example/''" 0 None]
  have dns: "normalize_error ?dns = ''DNS_RESOLUTION_FAILED''"
    by blast
  have r1: "\<not> str_contains ''handshake operation timed out'' (message ?refused)
        \<and> \<not> str_contains ''Name or service not known'' (message ?refused)
        \<and> \<not> str_contains ''Temporary failure in name resolution'' (message ?refused)
        \<and> str_contains ''Connection refused'' (message ?refused)"
    by simp
  from r1 error_classifier_precedence [of ?refused ?rt "''https://rpc.example/''" 0 None]
  have refused: "normalize_error ?refused = ''CONNECTION_REFUSED''"
    by blast
  have t1: "\<not> str_contains ''handshake operation timed out'' (message ?timeout)
        \<and> \<not> str_contains ''Name or service not known'' (message ?timeout)
        \<and> \<not> str_contains ''Temporary failure in name resolution'' (message ?timeout)
        \<and> \<not> str_contains ''Connection refused'' (message ?timeout)
        \<and> str_contains ''timed out'' (str_lower (message ?timeout))"
    by (simp add: str_lower_def char_lower_def)
  from t1 error_classifier_precedence [of ?timeout ?rt "''https://rpc.example/''" 0 None]
  have timeout: "normalize_error ?timeout = ''REQUEST_TIMEOUT''"
    by blast
  have o1: "\<not> str_contains ''handshake operation timed out'' (message ?other)
        \<and> \<not> str_contains ''Name or service not known'' (message ?other)
        \<and> \<not> str_contains ''Temporary failure in name resolution'' (message ?other)
        \<and> \<not> str_contains ''Connection refused'' (message ?other)
        \<and> \<not> str_contains ''timed out'' (str_lower (message ?other))"
    by (simp add: str_lower_def char_lower_def)
  from o1 error_classifier_precedence [of ?other ?rt "''https://rpc.example/''" 0 None]
  have "normalize_error ?other = ''EXCEPTION: '' @ take 400 (message ?other)"
    by blast
  then have other: "normalize_error ?other = ''EXCEPTION: boom''"
    by simp
  from h1 h2 a b d dns refused timeout other show ?thesis
    by blast
qed

section \<open>Properties of the API probe when every attempt raises\<close>

lemma most_helpful_error_classified:
  "most_helpful_error (normalize_error e1) (normalize_error e2) (normalize_error e3) =
     (if ''DNS_RESOLUTION_FAILED'' \<in> {normalize_error e1, normalize_error e2, normalize_error e3}
        then ''DNS_RESOLUTION_FAILED''
      else if ''TLS_HANDSHAKE_TIMEOUT'' \<in> {normalize_error e1, normalize_error e2, normalize_error e3}
        then ''TLS_HANDSHAKE_TIMEOUT''
      else if ''REQUEST_TIMEOUT'' \<in> {normalize_error e1, normalize_error e2, normalize_error e3}
        then ''REQUEST_TIMEOUT''
      else normalize_error e1)"
  unfolding most_helpful_error_def
  by (simp add: startswith_dns startswith_tls startswith_timeout normalize_error_nonempty
       del: insert_iff) auto

lemma all_attempts_raise:
  assumes "http_get rt (rstrip_slash base_url @ new_rest_path) = Inl e1"
    and "http_get rt (rstrip_slash base_url @ old_rest_path) = Inl e2"
    and "http_get rt (rstrip_slash base_url) = Inl e3"
  shows "check_api_endpoint rt now base_url expected =
           ((False, None, None, PNone,
             Some (most_helpful_error (normalize_error e1) (normalize_error e2) (normalize_error e3))),
            [rstrip_slash base_url @ new_rest_path, rstrip_slash base_url @ old_rest_path,
             rstrip_slash base_url])"
  using assms
  by (simp add: check_api_endpoint_def check_rest_block_latest_def alive_check_def Let_def)

text \<open>
  C7. When the three requests of the API probe all raise, the probe reports unavailable
  with no status, delay or height, and one error: \<open>DNS_RESOLUTION_FAILED\<close> if any of the
  three classified errors is that code, else \<open>TLS_HANDSHAKE_TIMEOUT\<close> if any is, else
  \<open>REQUEST_TIMEOUT\<close> if any is, else the classified error of the first attempt. Which
  attempt produced the DNS, TLS or timeout error does not matter.
\<close>

theorem api_all_strategies_throw_aggregate:
  assumes "http_get rt (rstrip_slash base_url @ new_rest_path) = Inl e1"
    and "http_get rt (rstrip_slash base_url @ old_rest_path) = Inl e2"
    and "http_get rt (rstrip_slash base_url) = Inl e3"
  shows "fst (check_api_endpoint rt now base_url expected) =
           (False, None, None, PNone,
            Some (if ''DNS_RESOLUTION_FAILED'' \<in> {normalize_error e1, normalize_error e2, normalize_error e3}
                    then ''DNS_RESOLUTION_FAILED''
                  else if ''TLS_HANDSHAKE_TIMEOUT'' \<in> {normalize_error e1, normalize_error e2, normalize_error e3}
                    then ''TLS_HANDSHAKE_TIMEOUT''
                  else if ''REQUEST_TIMEOUT'' \<in> {normalize_error e1, normalize_error e2, normalize_error e3}
                    then ''REQUEST_TIMEOUT''
                  else normalize_error e1))"
proof -
  have "fst (check_api_endpoint rt now base_url expected) =
          (False, None, None, PNone,
           Some (most_helpful_error (normalize_error e1) (normalize_error e2) (normalize_error e3)))"
    using all_attempts_raise [OF assms] by simp
  then show ?thesis
    by (simp only: most_helpful_error_classified)
qed

theorem api_all_strategies_throw_aggregate_witness:
  "fst (check_api_endpoint
      \<lparr>http_get = (\<lambda>url.
          if url = ''https://api.example/cosmos/base/tendermint/v1beta1/blocks/latest''
            then Inl (Exn ''boom'')
          else if url = ''https://api.example/blocks/latest''
            then Inl (Exn ''_ssl.c:1000: The handshake operation timed out'')
          else Inl (Exn ''[Errno -2] Name or service not known'')),
        fromisoformat = (\<lambda>s. Inl (Exn ''Invalid isoformat string'')),
        total_ms = (\<lambda>d. d div 1000),
        py_repr = (\<lambda>v. ''?'')\<rparr>
      0 ''https://api.example/'' (Some ''cosmoshub-4''))
   = (False, None, None, PNone, Some ''DNS_RESOLUTION_FAILED'')"
proof -
  let ?rt = "\<lparr>http_get = (\<lambda>url.
          if url = ''https://api.example/cosmos/base/tendermint/v1beta1/blocks/latest''
            then Inl (Exn ''boom'')
          else if url = ''https://api.example/blocks/latest''
            then Inl (Exn ''_ssl.c:1000: The handshake operation timed out'')
          else Inl (Exn ''[Errno -2] Name or service not known'')),
        fromisoformat = (\<lambda>s. Inl (Exn ''Invalid isoformat string'')),
        total_ms = (\<lambda>d. d div 1000),
        py_repr = (\<lambda>v. ''?'')\<rparr>"
  have u: "rstrip_slash ''https://api.example/'' = ''https://api.example''"
    by (simp add: rstrip_slash_def)
  have h1: "http_get ?rt (rstrip_slash ''https://api.example/'' @ new_rest_path) = Inl (Exn ''boom'')"
    by (simp add: u new_rest_path_def)
  have h2: "http_get ?rt (rstrip_slash ''https://api.example/'' @ old_rest_path)
              = Inl (Exn ''_ssl.c:1000: The handshake operation timed out'')"
    by (simp add: u old_rest_path_def)
  have h3: "http_get ?rt (rstrip_slash ''https://api.example/'')
              = Inl (Exn ''[Errno -2] Name or service not known'')"
    by (simp add: u)
  have n3: "normalize_error (Exn ''[Errno -2] Name or service not known'') = ''DNS_RESOLUTION_FAILED''"
    by (simp add: normalize_error_def)
  show ?thesis
    using api_all_strategies_throw_aggregate [OF h1 h2 h3, of 0 "Some ''cosmoshub-4''"]
    by (simp only: n3 insert_iff simp_thms if_True)
qed

section \<open>Properties of the time and delay utility\<close>









lemma parse_block_time_str:
  "parse_block_time rt (PStr s) =
     Inr (if s = [] then None else parse_normalized rt (normalized_ts s))"
  by (simp add: parse_block_time_def)

lemma calc_total: "calc_block_delay_ms rt now (PStr s) =
   Inr (case (if s = [] then None else parse_normalized rt (normalized_ts s)) of None \<Rightarrow> None
        | Some t \<Rightarrow> Some (max 0 (total_ms rt (now - t))))"
  by (simp add: calc_block_delay_ms_def parse_block_time_str Let_def max_def split: option.splits)



lemma endswith_Z_iff: "endswith s ''Z'' = (s \<noteq> [] \<and> last s = CHR ''Z'')"
  by (cases s rule: rev_cases) (auto simp: endswith_def suffix_def)











section \<open>Properties of the order of the API strategies\<close>

lemma str_int_404: "str_int 404 = ''404''"
  by (simp add: str_int_def str_nat.simps)

lemma rest_non_2xx:
  assumes "http_get rt (rstrip_slash base_url @ path) = Inr resp"
    and "resp_status_code resp < 200 \<or> resp_status_code resp \<ge> 300"
  shows "check_rest_block_latest rt now base_url path expected =
           (Inr (False, Some (resp_status_code resp), None, PNone,
                 Some (''HTTP_STATUS_'' @ str_int (resp_status_code resp))),
            [rstrip_slash base_url @ path])"
  using assms by (auto simp: check_rest_block_latest_def Let_def)

lemma rest_invalid_json:
  assumes "http_get rt (rstrip_slash base_url @ path) = Inr resp"
    and "200 \<le> resp_status_code resp" and "resp_status_code resp < 300"
    and "resp_json resp = Inl je"
  shows "check_rest_block_latest rt now base_url path expected =
           (Inr (False, Some (resp_status_code resp), None, PNone,
                 Some (''INVALID_JSON: '' @ message je)),
            [rstrip_slash base_url @ path])"
  using assms by (auto simp: check_rest_block_latest_def Let_def)

lemma rest_log:
  "snd (check_rest_block_latest rt now base_url path expected) = [rstrip_slash base_url @ path]"
  by (simp add: check_rest_block_latest_def Let_def)

lemma alive_log: "snd (alive_check rt base_url) = [rstrip_slash base_url]"
  by (simp add: alive_check_def Let_def)

lemma api_first_completes:
  assumes "fst (check_rest_block_latest rt now base_url new_rest_path expected) = Inr r"
  shows "check_api_endpoint rt now base_url expected = (r, [rstrip_slash base_url @ new_rest_path])"
  using assms rest_log [of rt now base_url new_rest_path expected]
  by (cases "check_rest_block_latest rt now base_url new_rest_path expected")
     (simp add: check_api_endpoint_def)

lemma api_second_completes:
  assumes "fst (check_rest_block_latest rt now base_url new_rest_path expected) = Inl e1"
    and "fst (check_rest_block_latest rt now base_url old_rest_path expected) = Inr r"
  shows "check_api_endpoint rt now base_url expected =
           (r, [rstrip_slash base_url @ new_rest_path, rstrip_slash base_url @ old_rest_path])"
  using assms rest_log [of rt now base_url new_rest_path expected]
    rest_log [of rt now base_url old_rest_path expected]
  by (cases "check_rest_block_latest rt now base_url new_rest_path expected";
      cases "check_rest_block_latest rt now base_url old_rest_path expected")
     (simp add: check_api_endpoint_def)

lemma api_third_completes:
  assumes "fst (check_rest_block_latest rt now base_url new_rest_path expected) = Inl e1"
    and "fst (check_rest_block_latest rt now base_url old_rest_path expected) = Inl e2"
    and "fst (alive_check rt base_url) = Inr r"
  shows "check_api_endpoint rt now base_url expected =
           (r, [rstrip_slash base_url @ new_rest_path, rstrip_slash base_url @ old_rest_path,
                rstrip_slash base_url])"
  using assms rest_log [of rt now base_url new_rest_path expected]
    rest_log [of rt now base_url old_rest_path expected] alive_log [of rt base_url]
  by (cases "check_rest_block_latest rt now base_url new_rest_path expected";
      cases "check_rest_block_latest rt now base_url old_rest_path expected";
      cases "alive_check rt base_url")
     (simp add: check_api_endpoint_def)

lemma api_none_completes:
  assumes "fst (check_rest_block_latest rt now base_url new_rest_path expected) = Inl e1"
    and "fst (check_rest_block_latest rt now base_url old_rest_path expected) = Inl e2"
    and "fst (alive_check rt base_url) = Inl e3"
  shows "check_api_endpoint rt now base_url expected =
           ((False, None, None, PNone,
             Some (most_helpful_error (normalize_error e1) (normalize_error e2) (normalize_error e3))),
            [rstrip_slash base_url @ new_rest_path, rstrip_slash base_url @ old_rest_path,
                rstrip_slash base_url])"
  using assms rest_log [of rt now base_url new_rest_path expected]
    rest_log [of rt now base_url old_rest_path expected] alive_log [of rt base_url]
  by (cases "check_rest_block_latest rt now base_url new_rest_path expected";
      cases "check_rest_block_latest rt now base_url old_rest_path expected";
      cases "alive_check rt base_url")
     (simp add: check_api_endpoint_def)

lemma alive_200:
  assumes "http_get rt (rstrip_slash base_url) = Inr resp"
    and "200 \<le> resp_status_code resp" and "resp_status_code resp < 300"
  shows "fst (alive_check rt base_url) = Inr (True, Some (resp_status_code resp), None, PNone, None)"
  using assms by (auto simp: alive_check_def Let_def)


lemma rest_transport_failure:
  "http_get rt (rstrip_slash base_url @ path) = Inl e \<Longrightarrow>
   fst (check_rest_block_latest rt now base_url path expected) = Inl e"
  by (simp add: check_rest_block_latest_def Let_def)

text \<open>
  C3. The API probe requests the new REST path first. When that attempt completes, its
  result is returned and nothing else is requested, also when the result is unavailable:
  a status outside 200 to 299 or a body that is not JSON. Only when the attempt raises
  is the legacy path requested, under the same rule, and only when both raise is the bare
  URL requested.
\<close>

theorem api_returns_first_completed_strategy:
  "(fst (check_rest_block_latest rt now base_url new_rest_path expected) = Inr r \<longrightarrow>
      check_api_endpoint rt now base_url expected
        = (r, [rstrip_slash base_url @ new_rest_path]))
   \<and> (fst (check_rest_block_latest rt now base_url new_rest_path expected) = Inl e1
        \<and> fst (check_rest_block_latest rt now base_url old_rest_path expected) = Inr r \<longrightarrow>
      check_api_endpoint rt now base_url expected
        = (r, [rstrip_slash base_url @ new_rest_path, rstrip_slash base_url @ old_rest_path]))
   \<and> (fst (check_rest_block_latest rt now base_url new_rest_path expected) = Inl e1
        \<and> fst (check_rest_block_latest rt now base_url old_rest_path expected) = Inl e2
        \<and> fst (alive_check rt base_url) = Inr r \<longrightarrow>
      check_api_endpoint rt now base_url expected
        = (r, [rstrip_slash base_url @ new_rest_path, rstrip_slash base_url @ old_rest_path,
               rstrip_slash base_url]))
   \<and> (http_get rt (rstrip_slash base_url @ new_rest_path) = Inr resp
        \<and> (resp_status_code resp < 200 \<or> resp_status_code resp \<ge> 300) \<longrightarrow>
      check_api_endpoint rt now base_url expected
        = ((False, Some (resp_status_code resp), None, PNone,
            Some (''HTTP_STATUS_'' @ str_int (resp_status_code resp))),
           [rstrip_slash base_url @ new_rest_path]))
   \<and> (http_get rt (rstrip_slash base_url @ new_rest_path) = Inr resp
        \<and> 200 \<le> resp_status_code resp \<and> resp_status_code resp < 300
        \<and> resp_json resp = Inl je \<longrightarrow>
      check_api_endpoint rt now base_url expected
        = ((False, Some (resp_status_code resp), None, PNone,
            Some (''INVALID_JSON: '' @ message je)),
           [rstrip_slash base_url @ new_rest_path]))"
proof -
  have a: "fst (check_rest_block_latest rt now base_url new_rest_path expected) = Inr r \<longrightarrow>
      check_api_endpoint rt now base_url expected
        = (r, [rstrip_slash base_url @ new_rest_path])"
    using api_first_completes by blast
  have b: "fst (check_rest_block_latest rt now base_url new_rest_path expected) = Inl e1
        \<and> fst (check_rest_block_latest rt now base_url old_rest_path expected) = Inr r \<longrightarrow>
      check_api_endpoint rt now base_url expected
        = (r, [rstrip_slash base_url @ new_rest_path, rstrip_slash base_url @ old_rest_path])"
    using api_second_completes by blast
  have c: "fst (check_rest_block_latest rt now base_url new_rest_path expected) = Inl e1
        \<and> fst (check_rest_block_latest rt now base_url old_rest_path expected) = Inl e2
        \<and> fst (alive_check rt base_url) = Inr r \<longrightarrow>
      check_api_endpoint rt now base_url expected
        = (r, [rstrip_slash base_url @ new_rest_path, rstrip_slash base_url @ old_rest_path,
               rstrip_slash base_url])"
    using api_third_completes by blast
  have d: "http_get rt (rstrip_slash base_url @ new_rest_path) = Inr resp
        \<and> (resp_status_code resp < 200 \<or> resp_status_code resp \<ge> 300) \<longrightarrow>
      check_api_endpoint rt now base_url expected
        = ((False, Some (resp_status_code resp), None, PNone,
            Some (''HTTP_STATUS_'' @ str_int (resp_status_code resp))),
           [rstrip_slash base_url @ new_rest_path])"
  proof
    assume h: "http_get rt (rstrip_slash base_url @ new_rest_path) = Inr resp
        \<and> (resp_status_code resp < 200 \<or> resp_status_code resp \<ge> 300)"
    then have "fst (check_rest_block_latest rt now base_url new_rest_path expected)
        = Inr (False, Some (resp_status_code resp), None, PNone,
            Some (''HTTP_STATUS_'' @ str_int (resp_status_code resp)))"
      using rest_non_2xx [of rt base_url new_rest_path resp now expected] by simp
    then show "check_api_endpoint rt now base_url expected
        = ((False, Some (resp_status_code resp), None, PNone,
            Some (''HTTP_STATUS_'' @ str_int (resp_status_code resp))),
           [rstrip_slash base_url @ new_rest_path])"
      by (rule api_first_completes)
  qed
  have e: "http_get rt (rstrip_slash base_url @ new_rest_path) = Inr resp
        \<and> 200 \<le> resp_status_code resp \<and> resp_status_code resp < 300
        \<and> resp_json resp = Inl je \<longrightarrow>
      check_api_endpoint rt now base_url expected
        = ((False, Some (resp_status_code resp), None, PNone,
            Some (''INVALID_JSON: '' @ message je)),
           [rstrip_slash base_url @ new_rest_path])"
  proof
    assume h: "http_get rt (rstrip_slash base_url @ new_rest_path) = Inr resp
        \<and> 200 \<le> resp_status_code resp \<and> resp_status_code resp < 300
        \<and> resp_json resp = Inl je"
    then have "fst (check_rest_block_latest rt now base_url new_rest_path expected)
        = Inr (False, Some (resp_status_code resp), None, PNone,
            Some (''INVALID_JSON: '' @ message je))"
      using rest_invalid_json [of rt base_url new_rest_path resp je now expected] by simp
    then show "check_api_endpoint rt now base_url expected
        = ((False, Some (resp_status_code resp), None, PNone,
            Some (''INVALID_JSON: '' @ message je)),
           [rstrip_slash base_url @ new_rest_path])"
      by (rule api_first_completes)
  qed
  show ?thesis using a b c d e by blast
qed

lemma example_urls:
  "rstrip_slash ''https://api.example/'' = ''https://api.example''"
  "rstrip_slash ''https://api.example/'' @ new_rest_path
     = ''https://api.example/cosmos/base/tendermint/v1beta1/blocks/latest''"
  "rstrip_slash ''https://api.example/'' @ old_rest_path = ''https://api.example/blocks/latest''"
  unfolding new_rest_path_def old_rest_path_def by (simp_all add: rstrip_slash_def)

theorem api_returns_first_completed_strategy_witness:
  "check_api_endpoint
     \<lparr>http_get = (\<lambda>url.
        if url = ''https://api.example/cosmos/base/tendermint/v1beta1/blocks/latest''
          then Inr \<lparr>resp_status_code = 503, resp_json = Inl (Exn ''Expecting value'')\<rparr>
        else Inr \<lparr>resp_status_code = 200, resp_json = Inl (Exn ''Expecting value'')\<rparr>),
      fromisoformat = (\<lambda>s. Inl (Exn ''Invalid isoformat string'')),
      total_ms = (\<lambda>d. d div 1000),
      py_repr = (\<lambda>v. ''?'')\<rparr>
     0 ''https://api.example/'' None
   = ((False, Some 503, None, PNone, Some ''HTTP_STATUS_503''),
      [''https://api.example/cosmos/base/tendermint/v1beta1/blocks/latest''])
   \<and> check_api_endpoint
     \<lparr>http_get = (\<lambda>url.
        if url = ''https://api.example/cosmos/base/tendermint/v1beta1/blocks/latest''
          then Inl (Exn ''Server disconnected'')
        else Inr \<lparr>resp_status_code = 200, resp_json = Inl (Exn ''Expecting value'')\<rparr>),
      fromisoformat = (\<lambda>s. Inl (Exn ''Invalid isoformat string'')),
      total_ms = (\<lambda>d. d div 1000),
      py_repr = (\<lambda>v. ''?'')\<rparr>
     0 ''https://api.example/'' None
   = ((False, Some 200, None, PNone, Some ''INVALID_JSON: Expecting value''),
      [''https://api.example/cosmos/base/tendermint/v1beta1/blocks/latest'',
       ''https://api.example/blocks/latest''])
   \<and> check_api_endpoint
     \<lparr>http_get = (\<lambda>url.
        if url = ''https://api.example''
          then Inr \<lparr>resp_status_code = 500, resp_json = Inl (Exn ''Expecting value'')\<rparr>
        else Inl (Exn ''Server disconnected'')),
      fromisoformat = (\<lambda>s. Inl (Exn ''Invalid isoformat string'')),
      total_ms = (\<lambda>d. d div 1000),
      py_repr = (\<lambda>v. ''?'')\<rparr>
     0 ''https://api.example/'' None
   = ((False, Some 500, None, PNone, Some ''HTTP_STATUS_500''),
      [''https://api.example/cosmos/base/tendermint/v1beta1/blocks/latest'',
       ''https://api.example/blocks/latest'', ''https://api.example''])"
proof -
  let ?rt = "\<lparr>http_get = (\<lambda>url.
        if url = ''https://api.example/cosmos/base/tendermint/v1beta1/blocks/latest''
          then Inr \<lparr>resp_status_code = 503, resp_json = Inl (Exn ''Expecting value'')\<rparr>
        else Inr \<lparr>resp_status_code = 200, resp_json = Inl (Exn ''Expecting value'')\<rparr>),
      fromisoformat = (\<lambda>s. Inl (Exn ''Invalid isoformat string'')),
      total_ms = (\<lambda>d. d div 1000),
      py_repr = (\<lambda>v. ''?'')\<rparr>"
  let ?rt2 = "\<lparr>http_get = (\<lambda>url.
        if url = ''https://api.example/cosmos/base/tendermint/v1beta1/blocks/latest''
          then Inl (Exn ''Server disconnected'')
        else Inr \<lparr>resp_status_code = 200, resp_json = Inl (Exn ''Expecting value'')\<rparr>),
      fromisoformat = (\<lambda>s. Inl (Exn ''Invalid isoformat string'')),
      total_ms = (\<lambda>d. d div 1000),
      py_repr = (\<lambda>v. ''?'')\<rparr>"
  let ?rt3 = "\<lparr>http_get = (\<lambda>url.
        if url = ''https://api.example''
          then Inr \<lparr>resp_status_code = 500, resp_json = Inl (Exn ''Expecting value'')\<rparr>
        else Inl (Exn ''Server disconnected'')),
      fromisoformat = (\<lambda>s. Inl (Exn ''Invalid isoformat string'')),
      total_ms = (\<lambda>d. d div 1000),
      py_repr = (\<lambda>v. ''?'')\<rparr>"
  let ?resp = "\<lparr>resp_status_code = 503, resp_json = Inl (Exn ''Expecting value'')\<rparr>"
  let ?r200 = "\<lparr>resp_status_code = 200, resp_json = Inl (Exn ''Expecting value'')\<rparr>"
  let ?r500 = "\<lparr>resp_status_code = 500, resp_json = Inl (Exn ''Expecting value'')\<rparr>"
  let ?e = "Exn ''Server disconnected''"
  let ?base = "''https://api.example/''"
  let ?second = "(False, Some 200, None, PNone, Some (''INVALID_JSON: '' @ message (Exn ''Expecting value'')))"
  let ?third = "(False, Some 500, None, PNone, Some (''HTTP_STATUS_'' @ str_int 500))"
  have h: "http_get ?rt (rstrip_slash ?base @ new_rest_path) = Inr ?resp
        \<and> (resp_status_code ?resp < 200 \<or> resp_status_code ?resp \<ge> 300)"
    by (simp add: example_urls new_rest_path_def)
  from h api_returns_first_completed_strategy
      [of ?rt 0 ?base None "(False, None, None, PNone, None)"
          "Exn ''none''" "Exn ''none''" ?resp "Exn ''none''"]
  have "check_api_endpoint ?rt 0 ?base None
        = ((False, Some (resp_status_code ?resp), None, PNone,
            Some (''HTTP_STATUS_'' @ str_int (resp_status_code ?resp))),
           [rstrip_slash ?base @ new_rest_path])"
    by blast
  then have a: "check_api_endpoint ?rt 0 ?base None
     = ((False, Some 503, None, PNone, Some ''HTTP_STATUS_503''),
        [''https://api.example/cosmos/base/tendermint/v1beta1/blocks/latest''])"
    by (simp add: example_urls new_rest_path_def str_int_def str_nat.simps)
  have s1: "fst (check_rest_block_latest ?rt2 0 ?base new_rest_path None) = Inl ?e"
    by (rule rest_transport_failure) (simp add: example_urls new_rest_path_def)
  have "check_rest_block_latest ?rt2 0 ?base old_rest_path None
          = (Inr (False, Some (resp_status_code ?r200), None, PNone,
                  Some (''INVALID_JSON: '' @ message (Exn ''Expecting value''))),
             [rstrip_slash ?base @ old_rest_path])"
    by (rule rest_invalid_json) (simp_all add: example_urls old_rest_path_def)
  then have s2: "fst (check_rest_block_latest ?rt2 0 ?base old_rest_path None) = Inr ?second"
    by simp
  from s1 s2 api_returns_first_completed_strategy
      [of ?rt2 0 ?base None ?second ?e ?e ?r200 "Exn ''none''"]
  have "check_api_endpoint ?rt2 0 ?base None
        = (?second, [rstrip_slash ?base @ new_rest_path, rstrip_slash ?base @ old_rest_path])"
    by blast
  then have b: "check_api_endpoint ?rt2 0 ?base None
     = ((False, Some 200, None, PNone, Some ''INVALID_JSON: Expecting value''),
        [''https://api.example/cosmos/base/tendermint/v1beta1/blocks/latest'',
         ''https://api.example/blocks/latest''])"
    by (simp add: example_urls new_rest_path_def old_rest_path_def)
  have t1: "fst (check_rest_block_latest ?rt3 0 ?base new_rest_path None) = Inl ?e"
    by (rule rest_transport_failure) (simp add: example_urls new_rest_path_def)
  have t2: "fst (check_rest_block_latest ?rt3 0 ?base old_rest_path None) = Inl ?e"
    by (rule rest_transport_failure) (simp add: example_urls old_rest_path_def)
  have t3: "fst (alive_check ?rt3 ?base) = Inr ?third"
    by (simp add: alive_check_def example_urls)
  from t1 t2 t3 api_returns_first_completed_strategy
      [of ?rt3 0 ?base None ?third ?e ?e ?r500 "Exn ''none''"]
  have "check_api_endpoint ?rt3 0 ?base None
        = (?third, [rstrip_slash ?base @ new_rest_path, rstrip_slash ?base @ old_rest_path,
                    rstrip_slash ?base])"
    by blast
  then have c: "check_api_endpoint ?rt3 0 ?base None
     = ((False, Some 500, None, PNone, Some ''HTTP_STATUS_500''),
        [''https://api.example/cosmos/base/tendermint/v1beta1/blocks/latest'',
         ''https://api.example/blocks/latest'', ''https://api.example''])"
    by (simp add: example_urls new_rest_path_def old_rest_path_def str_int_def str_nat.simps)
  from a b c show ?thesis by blast
qed

text \<open>
  C1, as stated, fails: with 404 on both REST block paths and 200 on the bare URL the probe
  returns the 404 result of the first path.
\<close>

theorem api_404_then_200_counterexample:
  "http_get rest_paths_404_runtime (rstrip_slash ''https://api.example'' @ new_rest_path)
     = Inr \<lparr>resp_status_code = 404, resp_json = Inl (Exn ''Expecting value'')\<rparr>
   \<and> http_get rest_paths_404_runtime (rstrip_slash ''https://api.example'' @ old_rest_path)
     = Inr \<lparr>resp_status_code = 404, resp_json = Inl (Exn ''Expecting value'')\<rparr>
   \<and> http_get rest_paths_404_runtime (rstrip_slash ''https://api.example'')
     = Inr \<lparr>resp_status_code = 200, resp_json = Inl (Exn ''Expecting value'')\<rparr>
   \<and> fst (check_api_endpoint rest_paths_404_runtime 0 ''https://api.example'' None)
     = (False, Some 404, None, PNone, Some ''HTTP_STATUS_404'')
   \<and> fst (check_api_endpoint rest_paths_404_runtime 0 ''https://api.example'' None)
     \<noteq> (True, Some 200, None, PNone, None)"
proof -
  have u: "rstrip_slash ''https://api.example'' = ''https://api.example''"
    by (simp add: rstrip_slash_def)
  have g1: "http_get rest_paths_404_runtime (rstrip_slash ''https://api.example'' @ new_rest_path)
     = Inr \<lparr>resp_status_code = 404, resp_json = Inl (Exn ''Expecting value'')\<rparr>"
    by (simp add: u rest_paths_404_runtime_def new_rest_path_def)
  have g2: "http_get rest_paths_404_runtime (rstrip_slash ''https://api.example'' @ old_rest_path)
     = Inr \<lparr>resp_status_code = 404, resp_json = Inl (Exn ''Expecting value'')\<rparr>"
    by (simp add: u rest_paths_404_runtime_def old_rest_path_def)
  have g3: "http_get rest_paths_404_runtime (rstrip_slash ''https://api.example'')
     = Inr \<lparr>resp_status_code = 200, resp_json = Inl (Exn ''Expecting value'')\<rparr>"
    by (simp add: u rest_paths_404_runtime_def)
  have "fst (check_rest_block_latest rest_paths_404_runtime 0 ''https://api.example''
               new_rest_path None)
          = Inr (False, Some 404, None, PNone, Some (''HTTP_STATUS_'' @ str_int 404))"
    using rest_non_2xx [OF g1, of 0 None] by simp
  then have r: "fst (check_api_endpoint rest_paths_404_runtime 0 ''https://api.example'' None)
     = (False, Some 404, None, PNone, Some ''HTTP_STATUS_404'')"
    using api_first_completes
      [of rest_paths_404_runtime 0 "''https://api.example''" None]
    by (simp add: str_int_404)
  from g1 g2 g3 r show ?thesis by simp
qed

text \<open>
  C1, amended. When the request to the first REST block path completes with status 404,
  the API probe returns \<open>(False, 404, None, None, HTTP_STATUS_404)\<close> and requests nothing
  else. The liveness result \<open>(True, 200, None, None, None)\<close> is returned when both REST
  block attempts raise and the bare GET completes with status 200.
\<close>

theorem api_rest_404_is_reported:
  "(http_get rt (rstrip_slash base_url @ new_rest_path) = Inr resp
      \<and> resp_status_code resp = 404 \<longrightarrow>
    check_api_endpoint rt now base_url expected
      = ((False, Some 404, None, PNone, Some ''HTTP_STATUS_404''),
         [rstrip_slash base_url @ new_rest_path]))
   \<and> (fst (check_rest_block_latest rt now base_url new_rest_path expected) = Inl e1
      \<and> fst (check_rest_block_latest rt now base_url old_rest_path expected) = Inl e2
      \<and> http_get rt (rstrip_slash base_url) = Inr resp
      \<and> resp_status_code resp = 200 \<longrightarrow>
    fst (check_api_endpoint rt now base_url expected) = (True, Some 200, None, PNone, None))"
proof -
  have a: "check_api_endpoint rt now base_url expected
      = ((False, Some 404, None, PNone, Some ''HTTP_STATUS_404''),
         [rstrip_slash base_url @ new_rest_path])"
    if h: "http_get rt (rstrip_slash base_url @ new_rest_path) = Inr resp"
      and s: "resp_status_code resp = 404"
  proof -
    have "fst (check_rest_block_latest rt now base_url new_rest_path expected)
            = Inr (False, Some 404, None, PNone, Some ''HTTP_STATUS_404'')"
      using rest_non_2xx [OF h, of now expected] s by (simp add: str_int_404)
    then show ?thesis by (rule api_first_completes)
  qed
  have b: "fst (check_api_endpoint rt now base_url expected) = (True, Some 200, None, PNone, None)"
    if h1: "fst (check_rest_block_latest rt now base_url new_rest_path expected) = Inl e1"
      and h2: "fst (check_rest_block_latest rt now base_url old_rest_path expected) = Inl e2"
      and h3: "http_get rt (rstrip_slash base_url) = Inr resp"
      and s: "resp_status_code resp = 200"
  proof -
    have "fst (alive_check rt base_url) = Inr (True, Some 200, None, PNone, None)"
      using alive_200 [OF h3] s by simp
    from api_third_completes [OF h1 h2 this] show ?thesis by simp
  qed
  from a b show ?thesis by blast
qed

theorem api_rest_404_is_reported_witness:
  "check_api_endpoint rest_paths_404_runtime 0 ''https://api.example'' None
     = ((False, Some 404, None, PNone, Some ''HTTP_STATUS_404''),
        [''https://api.example/cosmos/base/tendermint/v1beta1/blocks/latest''])
   \<and> fst (check_api_endpoint
        \<lparr>http_get = (\<lambda>url.
           if url = ''https://api.example''
             then Inr \<lparr>resp_status_code = 200, resp_json = Inl (Exn ''Expecting value'')\<rparr>
           else Inl (Exn ''Server disconnected without sending a response.'')),
         fromisoformat = (\<lambda>s. Inl (Exn ''Invalid isoformat string'')),
         total_ms = (\<lambda>d. d div 1000),
         py_repr = (\<lambda>v. ''?'')\<rparr>
        0 ''https://api.example'' None)
     = (True, Some 200, None, PNone, None)"
proof -
  let ?rt = "\<lparr>http_get = (\<lambda>url.
           if url = ''https://api.example''
             then Inr \<lparr>resp_status_code = 200, resp_json = Inl (Exn ''Expecting value'')\<rparr>
           else Inl (Exn ''Server disconnected without sending a response.'')),
         fromisoformat = (\<lambda>s. Inl (Exn ''Invalid isoformat string'')),
         total_ms = (\<lambda>d. d div 1000),
         py_repr = (\<lambda>v. ''?'')\<rparr>"
  let ?e = "Exn ''Server disconnected without sending a response.''"
  let ?r404 = "\<lparr>resp_status_code = 404, resp_json = Inl (Exn ''Expecting value'')\<rparr>"
  let ?r200 = "\<lparr>resp_status_code = 200, resp_json = Inl (Exn ''Expecting value'')\<rparr>"
  have u: "rstrip_slash ''https://api.example'' = ''https://api.example''"
    by (simp add: rstrip_slash_def)
  have g: "http_get rest_paths_404_runtime (rstrip_slash ''https://api.example'' @ new_rest_path)
             = Inr ?r404 \<and> resp_status_code ?r404 = 404"
    by (simp add: u rest_paths_404_runtime_def new_rest_path_def)
  from g api_rest_404_is_reported
    [of rest_paths_404_runtime "''https://api.example''" ?r404 0 None ?e ?e]
  have a: "check_api_endpoint rest_paths_404_runtime 0 ''https://api.example'' None
      = ((False, Some 404, None, PNone, Some ''HTTP_STATUS_404''),
         [rstrip_slash ''https://api.example'' @ new_rest_path])"
    by blast
  have h1: "fst (check_rest_block_latest ?rt 0 ''https://api.example'' new_rest_path None) = Inl ?e"
    by (rule rest_transport_failure) (simp add: u new_rest_path_def)
  have h2: "fst (check_rest_block_latest ?rt 0 ''https://api.example'' old_rest_path None) = Inl ?e"
    by (rule rest_transport_failure) (simp add: u old_rest_path_def)
  have h3: "http_get ?rt (rstrip_slash ''https://api.example'') = Inr ?r200
              \<and> resp_status_code ?r200 = 200"
    by (simp add: u)
  from h1 h2 h3 api_rest_404_is_reported [of ?rt "''https://api.example''" ?r200 0 None ?e ?e]
  have b: "fst (check_api_endpoint ?rt 0 ''https://api.example'' None)
             = (True, Some 200, None, PNone, None)"
    by blast
  from a b show ?thesis by (simp add: u new_rest_path_def)
qed

section \<open>Properties of the chain id test\<close>

lemma chain_id_mismatch_iff:
  "chain_id_mismatch expected observed =
     (\<exists>x. expected = Some x \<and> x \<noteq> [] \<and> truthy observed \<and> observed \<noteq> PStr x)"
  by (cases expected) (simp_all add: chain_id_mismatch_def)


lemma block_verdict_no_mismatch:
  assumes "\<not> chain_id_mismatch expected chain_id"
    and "calc_block_delay_ms rt now time_str = Inr delay"
  shows "block_verdict rt now st expected chain_id height time_str =
           Inr (case delay of
                  None \<Rightarrow> (False, Some st, None, height, Some ''INVALID_BLOCK_TIME'')
                | Some ms \<Rightarrow> (True, Some st, Some ms, height, None))"
  using assms by (simp add: block_verdict_def split: option.splits)

lemma block_verdict_mismatch_only:
  assumes "block_verdict rt now st expected chain_id height time_str = Inr (ok, s, d, h, Some m)"
    and "startswith m ''CHAIN_ID_MISMATCH''"
  shows "chain_id_mismatch expected chain_id"
  using assms
  by (auto simp: block_verdict_def startswith_def Let_def split: if_splits sum.splits option.splits)

lemma classify_not_mismatch: "\<not> startswith (normalize_error e) ''CHAIN_ID_MISMATCH''"
  using normalize_error_cases [of e] by (auto simp: startswith_def)


lemma rpc_json_body:
  assumes "http_get rt (rstrip_slash base_url @ ''/status'') = Inr resp"
    and "200 \<le> resp_status_code resp" and "resp_status_code resp < 300"
    and "resp_json resp = Inr data"
    and "rpc_fields data = Inr (observed, height, time_str)"
    and "block_verdict rt now (resp_status_code resp) expected observed height time_str = Inr r"
  shows "check_rpc_endpoint rt now base_url expected = r"
  using assms by (simp add: check_rpc_endpoint_def rpc_try_def Let_def)

lemma rest_json_body:
  assumes "http_get rt (rstrip_slash base_url @ path) = Inr resp"
    and "200 \<le> resp_status_code resp" and "resp_status_code resp < 300"
    and "resp_json resp = Inr data"
    and "rest_fields data = Inr (observed, height, time_str)"
    and "block_verdict rt now (resp_status_code resp) expected observed height time_str = Inr r"
  shows "check_rest_block_latest rt now base_url path expected = (Inr r, [rstrip_slash base_url @ path])"
  using assms by (simp add: check_rest_block_latest_def Let_def)

lemma rpc_mismatch_only:
  assumes "check_rpc_endpoint rt now base_url expected = (ok, st, d, h, Some m)"
    and "startswith m ''CHAIN_ID_MISMATCH''"
  shows "\<exists>resp data observed height time_str.
           http_get rt (rstrip_slash base_url @ ''/status'') = Inr resp
           \<and> resp_json resp = Inr data
           \<and> rpc_fields data = Inr (observed, height, time_str)
           \<and> chain_id_mismatch expected observed"
proof (cases "http_get rt (rstrip_slash base_url @ ''/status'')")
  case (Inl e)
  with assms show ?thesis
    using classify_not_mismatch [of e]
    by (auto simp: check_rpc_endpoint_def rpc_try_def rpc_classify_eq)
next
  case (Inr resp)
  note resp = this
  show ?thesis
  proof (cases "resp_status_code resp < 200 \<or> resp_status_code resp \<ge> 300")
    case True
    with assms resp show ?thesis
      by (auto simp: check_rpc_endpoint_def rpc_try_def Let_def startswith_def)
  next
    case False
    note ok = this
    show ?thesis
    proof (cases "resp_json resp")
      case (Inl je)
      with assms resp ok show ?thesis
        by (auto simp: check_rpc_endpoint_def rpc_try_def Let_def startswith_def)
    next
      case (Inr data)
      note data = this
      show ?thesis
      proof (cases "rpc_fields data")
        case (Inl e)
        with assms resp ok data show ?thesis
          using classify_not_mismatch [of e]
          by (auto simp: check_rpc_endpoint_def rpc_try_def Let_def rpc_classify_eq)
      next
        case (Inr f)
        obtain observed height time_str where f: "f = (observed, height, time_str)"
          by (cases f) auto
        show ?thesis
        proof (cases "block_verdict rt now (resp_status_code resp) expected observed height time_str")
          case (Inl e)
          with assms resp ok data Inr f show ?thesis
            using classify_not_mismatch [of e]
            by (auto simp: check_rpc_endpoint_def rpc_try_def Let_def rpc_classify_eq)
        next
          case (Inr r)
          with assms resp ok data \<open>rpc_fields data = Inr f\<close> f
          have "r = (ok, st, d, h, Some m)"
            by (auto simp: check_rpc_endpoint_def rpc_try_def Let_def)
          with Inr assms(2) have "chain_id_mismatch expected observed"
            using block_verdict_mismatch_only by blast
          with resp data \<open>rpc_fields data = Inr f\<close> f show ?thesis by blast
        qed
      qed
    qed
  qed
qed

lemma rest_mismatch_only:
  assumes "fst (check_rest_block_latest rt now base_url path expected) = Inr (ok, st, d, h, Some m)"
    and "startswith m ''CHAIN_ID_MISMATCH''"
  shows "\<exists>resp data observed height time_str.
           http_get rt (rstrip_slash base_url @ path) = Inr resp
           \<and> resp_json resp = Inr data
           \<and> rest_fields data = Inr (observed, height, time_str)
           \<and> chain_id_mismatch expected observed"
proof (cases "http_get rt (rstrip_slash base_url @ path)")
  case (Inl e)
  with assms show ?thesis
    by (auto simp: check_rest_block_latest_def)
next
  case (Inr resp)
  note resp = this
  show ?thesis
  proof (cases "resp_status_code resp < 200 \<or> resp_status_code resp \<ge> 300")
    case True
    with assms resp show ?thesis
      by (auto simp: check_rest_block_latest_def Let_def startswith_def)
  next
    case False
    note ok = this
    show ?thesis
    proof (cases "resp_json resp")
      case (Inl je)
      with assms resp ok show ?thesis
        by (auto simp: check_rest_block_latest_def Let_def startswith_def)
    next
      case (Inr data)
      note data = this
      show ?thesis
      proof (cases "rest_fields data")
        case (Inl e)
        with assms resp ok data show ?thesis
          by (auto simp: check_rest_block_latest_def Let_def)
      next
        case (Inr f)
        obtain observed height time_str where f: "f = (observed, height, time_str)"
          by (cases f) auto
        from assms resp ok data Inr f
        have "block_verdict rt now (resp_status_code resp) expected observed height time_str
                = Inr (ok, st, d, h, Some m)"
          by (auto simp: check_rest_block_latest_def Let_def)
        with assms(2) have "chain_id_mismatch expected observed"
          using block_verdict_mismatch_only by blast
        with resp data Inr f show ?thesis by blast
      qed
    qed
  qed
qed





lemma example_delay:
  "calc_block_delay_ms
     \<lparr>http_get = g,
      fromisoformat = (\<lambda>s. if s = ''2024-01-02T03:04:05+00:00''
                            then Inr \<lparr>wall = 63839761445000000, utcoffset = Some 0\<rparr>
                            else Inl (Exn ''Invalid isoformat string'')),
      total_ms = (\<lambda>d. d div 1000),
      py_repr = (\<lambda>v. ''?'')\<rparr>
     63839761450000000 (PStr ''2024-01-02T03:04:05Z'') = Inr (Some 5000)"
proof -
  have n: "normalized_ts ''2024-01-02T03:04:05Z'' = ''2024-01-02T03:04:05+00:00''"
    by (simp add: normalized_ts_def z_to_offset_def cut_fraction_def endswith_Z_iff)
  show ?thesis
    by (simp add: calc_total n parse_normalized_def astimezone_utc_def)
qed


section \<open>When a chain id mismatch can be reported\<close>

lemma alive_not_mismatch:
  assumes "fst (alive_check rt base_url) = Inr (ok, st, d, h, Some m)"
  shows "\<not> startswith m ''CHAIN_ID_MISMATCH''"
  using assms
  by (auto simp: alive_check_def Let_def startswith_def split: sum.splits if_splits)

lemma most_helpful_not_mismatch:
  "\<not> startswith (most_helpful_error (normalize_error e1) (normalize_error e2) (normalize_error e3))
       ''CHAIN_ID_MISMATCH''"
proof -
  have "most_helpful_error (normalize_error e1) (normalize_error e2) (normalize_error e3)
          \<in> {''DNS_RESOLUTION_FAILED'', ''TLS_HANDSHAKE_TIMEOUT'', ''REQUEST_TIMEOUT'',
              normalize_error e1}"
    by (simp only: most_helpful_error_classified) simp
  then show ?thesis
    using classify_not_mismatch [of e1] by (auto simp: startswith_def)
qed

lemma api_mismatch_needs_expected:
  assumes r: "fst (check_api_endpoint rt now base_url expected) = (ok, st, d, h, Some m)"
    and m: "startswith m ''CHAIN_ID_MISMATCH''"
  shows "\<exists>x. expected = Some x \<and> x \<noteq> []"
proof (cases "fst (check_rest_block_latest rt now base_url new_rest_path expected)")
  case (Inr r1)
  from api_first_completes [OF Inr] r have "r1 = (ok, st, d, h, Some m)" by simp
  with Inr m rest_mismatch_only [of rt now base_url new_rest_path expected ok st d h m]
  show ?thesis by (auto simp: chain_id_mismatch_iff)
next
  case (Inl e1)
  note one = this
  show ?thesis
  proof (cases "fst (check_rest_block_latest rt now base_url old_rest_path expected)")
    case (Inr r2)
    from api_second_completes [OF one Inr] r have "r2 = (ok, st, d, h, Some m)" by simp
    with Inr m rest_mismatch_only [of rt now base_url old_rest_path expected ok st d h m]
    show ?thesis by (auto simp: chain_id_mismatch_iff)
  next
    case (Inl e2)
    note two = this
    show ?thesis
    proof (cases "fst (alive_check rt base_url)")
      case (Inr r3)
      from api_third_completes [OF one two Inr] r have "r3 = (ok, st, d, h, Some m)" by simp
      with Inr m alive_not_mismatch [of rt base_url ok st d h m] show ?thesis by simp
    next
      case (Inl e3)
      from api_none_completes [OF one two Inl] r
      have "m = most_helpful_error (normalize_error e1) (normalize_error e2) (normalize_error e3)"
        by simp
      with m most_helpful_not_mismatch [of e1 e2 e3] show ?thesis by simp
    qed
  qed
qed

lemma runner_probe_no_expected:
  assumes e: "net_chain_id net = []"
    and p: "probe_endpoint (checker_env rt probe_now batch_now limit) ep net = Inr (ok, st, d, h, Some m)"
  shows "\<not> startswith m ''CHAIN_ID_MISMATCH''"
proof
  assume m: "startswith m ''CHAIN_ID_MISMATCH''"
  have x: "expected_chain_id_of net = None"
    using e by (simp add: expected_chain_id_of_def)
  show False
  proof (cases "ep_type ep = ''rpc''")
    case True
    with p x have "check_rpc_endpoint rt (probe_now (ep_url ep)) (ep_url ep) None
                     = (ok, st, d, h, Some m)"
      by (simp add: probe_endpoint_def checker_env_def)
    from rpc_mismatch_only [OF this m] show False
      by (simp add: chain_id_mismatch_def)
  next
    case False
    with p x have "fst (check_api_endpoint rt (probe_now (ep_url ep)) (ep_url ep) None)
                     = (ok, st, d, h, Some m)"
      by (simp add: probe_endpoint_def checker_env_def split: if_splits)
    from api_mismatch_needs_expected [OF this m] show False by simp
  qed
qed


text \<open>
  C10. An error starting with \<open>CHAIN_ID_MISMATCH\<close> comes out of the RPC probe, or out of
  the REST block helper, only when an expected chain id was supplied and is non-empty, the
  body carries an observed chain id with a true truth value, and the two differ. A body
  whose chain id is missing or empty never gives a mismatch, whatever was expected: the
  probe goes on to the delay and reports available when the delay is computed. For a
  network whose \<open>chain_id\<close> is the empty string the runner passes \<open>None\<close> as expected chain
  id, and no probe it invokes for that network returns a mismatch.
\<close>

theorem chain_id_mismatch_only_when_both_present:
  "(check_rpc_endpoint rt now base_url expected = (ok, st, d, h, Some m)
      \<and> startswith m ''CHAIN_ID_MISMATCH'' \<longrightarrow>
    (\<exists>x resp data observed height time_str.
       expected = Some x \<and> x \<noteq> []
       \<and> http_get rt (rstrip_slash base_url @ ''/status'') = Inr resp
       \<and> resp_json resp = Inr data
       \<and> rpc_fields data = Inr (observed, height, time_str)
       \<and> truthy observed \<and> observed \<noteq> PStr x))
   \<and> (fst (check_rest_block_latest rt now base_url path expected) = Inr (ok, st, d, h, Some m)
      \<and> startswith m ''CHAIN_ID_MISMATCH'' \<longrightarrow>
    (\<exists>x resp data observed height time_str.
       expected = Some x \<and> x \<noteq> []
       \<and> http_get rt (rstrip_slash base_url @ path) = Inr resp
       \<and> resp_json resp = Inr data
       \<and> rest_fields data = Inr (observed, height, time_str)
       \<and> truthy observed \<and> observed \<noteq> PStr x))
   \<and> (http_get rt (rstrip_slash base_url @ ''/status'') = Inr rsp
      \<and> 200 \<le> resp_status_code rsp \<and> resp_status_code rsp < 300
      \<and> resp_json rsp = Inr body
      \<and> rpc_fields body = Inr (chain_id, height, time_str)
      \<and> \<not> truthy chain_id
      \<and> calc_block_delay_ms rt now time_str = Inr delay \<longrightarrow>
    check_rpc_endpoint rt now base_url expected
      = (case delay of
           None \<Rightarrow> (False, Some (resp_status_code rsp), None, height, Some ''INVALID_BLOCK_TIME'')
         | Some ms \<Rightarrow> (True, Some (resp_status_code rsp), Some ms, height, None)))
   \<and> (http_get rt (rstrip_slash base_url @ path) = Inr rsp
      \<and> 200 \<le> resp_status_code rsp \<and> resp_status_code rsp < 300
      \<and> resp_json rsp = Inr body
      \<and> rest_fields body = Inr (chain_id, height, time_str)
      \<and> \<not> truthy chain_id
      \<and> calc_block_delay_ms rt now time_str = Inr delay \<longrightarrow>
    fst (check_rest_block_latest rt now base_url path expected)
      = Inr (case delay of
           None \<Rightarrow> (False, Some (resp_status_code rsp), None, height, Some ''INVALID_BLOCK_TIME'')
         | Some ms \<Rightarrow> (True, Some (resp_status_code rsp), Some ms, height, None)))
   \<and> (net_chain_id net = [] \<longrightarrow> expected_chain_id_of net = None)
   \<and> (net_chain_id net = []
      \<and> probe_endpoint (checker_env rt probe_now batch_now limit) ep net
          = Inr (ok, st, d, h, Some m) \<longrightarrow>
    \<not> startswith m ''CHAIN_ID_MISMATCH'')"
proof -
  have a: "check_rpc_endpoint rt now base_url expected = (ok, st, d, h, Some m)
      \<and> startswith m ''CHAIN_ID_MISMATCH'' \<longrightarrow>
    (\<exists>x resp data observed height time_str.
       expected = Some x \<and> x \<noteq> []
       \<and> http_get rt (rstrip_slash base_url @ ''/status'') = Inr resp
       \<and> resp_json resp = Inr data
       \<and> rpc_fields data = Inr (observed, height, time_str)
       \<and> truthy observed \<and> observed \<noteq> PStr x)"
    using rpc_mismatch_only [of rt now base_url expected ok st d h m]
    by (simp only: chain_id_mismatch_iff) blast
  have b: "fst (check_rest_block_latest rt now base_url path expected) = Inr (ok, st, d, h, Some m)
      \<and> startswith m ''CHAIN_ID_MISMATCH'' \<longrightarrow>
    (\<exists>x resp data observed height time_str.
       expected = Some x \<and> x \<noteq> []
       \<and> http_get rt (rstrip_slash base_url @ path) = Inr resp
       \<and> resp_json resp = Inr data
       \<and> rest_fields data = Inr (observed, height, time_str)
       \<and> truthy observed \<and> observed \<noteq> PStr x)"
    using rest_mismatch_only [of rt now base_url path expected ok st d h m]
    by (simp only: chain_id_mismatch_iff) blast
  have n: "\<not> chain_id_mismatch expected chain_id" if "\<not> truthy chain_id"
    using that by (simp add: chain_id_mismatch_iff)
  have c: "http_get rt (rstrip_slash base_url @ ''/status'') = Inr rsp
      \<and> 200 \<le> resp_status_code rsp \<and> resp_status_code rsp < 300
      \<and> resp_json rsp = Inr body
      \<and> rpc_fields body = Inr (chain_id, height, time_str)
      \<and> \<not> truthy chain_id
      \<and> calc_block_delay_ms rt now time_str = Inr delay \<longrightarrow>
    check_rpc_endpoint rt now base_url expected
      = (case delay of
           None \<Rightarrow> (False, Some (resp_status_code rsp), None, height, Some ''INVALID_BLOCK_TIME'')
         | Some ms \<Rightarrow> (True, Some (resp_status_code rsp), Some ms, height, None))"
    using n rpc_json_body block_verdict_no_mismatch by blast
  have "check_rest_block_latest rt now base_url path expected
      = (Inr (case delay of
           None \<Rightarrow> (False, Some (resp_status_code rsp), None, height, Some ''INVALID_BLOCK_TIME'')
         | Some ms \<Rightarrow> (True, Some (resp_status_code rsp), Some ms, height, None)),
         [rstrip_slash base_url @ path])"
    if "http_get rt (rstrip_slash base_url @ path) = Inr rsp"
      and "200 \<le> resp_status_code rsp" and "resp_status_code rsp < 300"
      and "resp_json rsp = Inr body"
      and "rest_fields body = Inr (chain_id, height, time_str)"
      and "\<not> truthy chain_id"
      and "calc_block_delay_ms rt now time_str = Inr delay"
    using that n rest_json_body block_verdict_no_mismatch by blast
  then have d: "http_get rt (rstrip_slash base_url @ path) = Inr rsp
      \<and> 200 \<le> resp_status_code rsp \<and> resp_status_code rsp < 300
      \<and> resp_json rsp = Inr body
      \<and> rest_fields body = Inr (chain_id, height, time_str)
      \<and> \<not> truthy chain_id
      \<and> calc_block_delay_ms rt now time_str = Inr delay \<longrightarrow>
    fst (check_rest_block_latest rt now base_url path expected)
      = Inr (case delay of
           None \<Rightarrow> (False, Some (resp_status_code rsp), None, height, Some ''INVALID_BLOCK_TIME'')
         | Some ms \<Rightarrow> (True, Some (resp_status_code rsp), Some ms, height, None))"
    by simp
  have e: "net_chain_id net = [] \<longrightarrow> expected_chain_id_of net = None"
    by (simp add: expected_chain_id_of_def)
  have f: "net_chain_id net = []
      \<and> probe_endpoint (checker_env rt probe_now batch_now limit) ep net
          = Inr (ok, st, d, h, Some m) \<longrightarrow>
    \<not> startswith m ''CHAIN_ID_MISMATCH''"
    using runner_probe_no_expected by blast
  from a b c d e f show ?thesis by blast
qed

lemma example_status_fields_no_network:
  "rpc_fields
     (PDict [(''result'',
        PDict [(''node_info'', PDict [(''moniker'', n)]),
               (''sync_info'', PDict [(''latest_block_height'', h), (''latest_block_time'', t)])])])
   = Inr (PNone, h, t)"
  by (simp add: rpc_fields_def and_then_def get_or_empty_def py_get_def)

theorem chain_id_mismatch_only_when_both_present_witness:
  "check_rpc_endpoint
     \<lparr>http_get = (\<lambda>url. Inr \<lparr>resp_status_code = 200, resp_json = Inr
        (PDict [(''result'',
           PDict [(''node_info'', PDict [(''moniker'', PStr ''node-1'')]),
                  (''sync_info'', PDict [(''latest_block_height'', PStr ''100''),
                     (''latest_block_time'', PStr ''2024-01-02T03:04:05Z'')])])])\<rparr>),
      fromisoformat = (\<lambda>s. if s = ''2024-01-02T03:04:05+00:00''
                            then Inr \<lparr>wall = 63839761445000000, utcoffset = Some 0\<rparr>
                            else Inl (Exn ''Invalid isoformat string'')),
      total_ms = (\<lambda>d. d div 1000),
      py_repr = (\<lambda>v. ''?'')\<rparr>
     63839761450000000 ''https://rpc.example'' (Some ''cosmoshub-4'')
   = (True, Some 200, Some 5000, PStr ''100'', None)
   \<and> expected_chain_id_of \<lparr>net_id = 7, net_chain_id = []\<rparr> = None
   \<and> probe_endpoint
        (checker_env
           \<lparr>http_get = (\<lambda>url. Inr \<lparr>resp_status_code = 200, resp_json = Inr
              (PDict [(''result'',
                 PDict [(''node_info'', PDict [(''network'', PStr ''osmosis-1'')]),
                        (''sync_info'', PDict [(''latest_block_height'', PStr ''100'')])])])\<rparr>),
            fromisoformat = (\<lambda>s. Inl (Exn ''Invalid isoformat string'')),
            total_ms = (\<lambda>d. d div 1000),
            py_repr = (\<lambda>v. ''?'')\<rparr>
           (\<lambda>url. 63839761450000000) (\<lambda>ep. 63839761450000000) 100)
        \<lparr>ep_id = 3, ep_network_id = 7, ep_name = ''c'', ep_type = ''rpc'',
         ep_url = ''https://rpc.example'', ep_enabled = True\<rparr>
        \<lparr>net_id = 7, net_chain_id = []\<rparr>
      = Inr (False, Some 200, None, PStr ''100'', Some ''INVALID_BLOCK_TIME'')
   \<and> \<not> startswith ''INVALID_BLOCK_TIME'' ''CHAIN_ID_MISMATCH''"
proof -
  let ?data = "PDict [(''result'',
           PDict [(''node_info'', PDict [(''moniker'', PStr ''node-1'')]),
                  (''sync_info'', PDict [(''latest_block_height'', PStr ''100''),
                     (''latest_block_time'', PStr ''2024-01-02T03:04:05Z'')])])]"
  let ?resp = "\<lparr>resp_status_code = 200, resp_json = Inr ?data\<rparr>"
  let ?rt = "\<lparr>http_get = (\<lambda>url. Inr ?resp),
      fromisoformat = (\<lambda>s. if s = ''2024-01-02T03:04:05+00:00''
                            then Inr \<lparr>wall = 63839761445000000, utcoffset = Some 0\<rparr>
                            else Inl (Exn ''Invalid isoformat string'')),
      total_ms = (\<lambda>d. d div 1000),
      py_repr = (\<lambda>v. ''?'')\<rparr>"
  let ?t = "PStr ''2024-01-02T03:04:05Z''"
  let ?net = "\<lparr>net_id = 7, net_chain_id = []\<rparr>"
  let ?ep = "\<lparr>ep_id = 3, ep_network_id = 7, ep_name = ''c'', ep_type = ''rpc'',
         ep_url = ''https://rpc.example'', ep_enabled = True\<rparr>"
  let ?rt2 = "\<lparr>http_get = (\<lambda>url. Inr \<lparr>resp_status_code = 200, resp_json = Inr
              (PDict [(''result'',
                 PDict [(''node_info'', PDict [(''network'', PStr ''osmosis-1'')]),
                        (''sync_info'', PDict [(''latest_block_height'', PStr ''100'')])])])\<rparr>),
            fromisoformat = (\<lambda>s. Inl (Exn ''Invalid isoformat string'')),
            total_ms = (\<lambda>d. d div 1000),
            py_repr = (\<lambda>v. ''?'')\<rparr>"
  let ?env = "checker_env ?rt2 (\<lambda>url. 63839761450000000) (\<lambda>ep. 63839761450000000) 100"
  note c = chain_id_mismatch_only_when_both_present
    [where rt = ?rt and now = 63839761450000000 and base_url = "''https://rpc.example''"
       and expected = "Some ''cosmoshub-4''" and rsp = ?resp and body = ?data
       and chain_id = PNone and height = "PStr ''100''" and time_str = ?t
       and delay = "Some 5000" and net = ?net]
  have h: "http_get ?rt (rstrip_slash ''https://rpc.example'' @ ''/status'') = Inr ?resp
      \<and> 200 \<le> resp_status_code ?resp \<and> resp_status_code ?resp < 300
      \<and> resp_json ?resp = Inr ?data
      \<and> rpc_fields ?data = Inr (PNone, PStr ''100'', ?t)
      \<and> \<not> truthy PNone
      \<and> calc_block_delay_ms ?rt 63839761450000000 ?t = Inr (Some 5000)"
    using example_delay [of "\<lambda>url. Inr ?resp"] by (simp add: example_status_fields_no_network)
  from c h
  have "check_rpc_endpoint ?rt 63839761450000000 ''https://rpc.example'' (Some ''cosmoshub-4'')
      = (case Some 5000 of
           None \<Rightarrow> (False, Some (resp_status_code ?resp), None, PStr ''100'', Some ''INVALID_BLOCK_TIME'')
         | Some ms \<Rightarrow> (True, Some (resp_status_code ?resp), Some ms, PStr ''100'', None))"
    by blast
  then have a: "check_rpc_endpoint ?rt 63839761450000000 ''https://rpc.example'' (Some ''cosmoshub-4'')
      = (True, Some 200, Some 5000, PStr ''100'', None)"
    by simp
  have g: "net_chain_id ?net = []" by simp
  from c g have b: "expected_chain_id_of ?net = None" by blast
  have p: "probe_endpoint ?env ?ep ?net
             = Inr (False, Some 200, None, PStr ''100'', Some ''INVALID_BLOCK_TIME'')"
    by (simp add: probe_endpoint_def checker_env_def expected_chain_id_of_def
          check_rpc_endpoint_def rpc_try_def rpc_fields_def and_then_def get_or_empty_def
          py_get_def block_verdict_def chain_id_mismatch_def calc_block_delay_ms_def)
  from g p chain_id_mismatch_only_when_both_present
    [where net = ?net and rt = ?rt2 and probe_now = "\<lambda>url. 63839761450000000"
       and batch_now = "\<lambda>ep. 63839761450000000" and limit = 100 and ep = ?ep
       and ok = False and st = "Some 200" and d = None and h = "PStr ''100''"
       and m = "''INVALID_BLOCK_TIME''"]
  have n: "\<not> startswith ''INVALID_BLOCK_TIME'' ''CHAIN_ID_MISMATCH''"
    by blast
  from a b p n show ?thesis by blast
qed

section \<open>Properties of the batch runner\<close>

lemma overwrite_is_new:
  fixes status new :: check_row
  assumes "endpoint_id status = endpoint_id new"
  shows "status\<lparr>is_available := is_available new,
               status_code := status_code new,
               block_delay_ms := block_delay_ms new,
               last_block_height := last_block_height new,
               error_message := error_message new,
               checked_at := checked_at new\<rparr> = new"
  using assms by simp

lemma upsert_ids:
  "set (map endpoint_id (upsert_status new ss)) = insert (endpoint_id new) (set (map endpoint_id ss))"
  by (induction ss) auto

lemma upsert_distinct:
  "distinct (map endpoint_id ss) \<Longrightarrow> distinct (map endpoint_id (upsert_status new ss))"
proof (induction ss)
  case Nil
  then show ?case by simp
next
  case (Cons s ss)
  then show ?case
    using upsert_ids [of new ss] by auto
qed

lemma upsert_other:
  "i \<noteq> endpoint_id (new :: check_row) \<Longrightarrow>
   filter (\<lambda>s. endpoint_id s = i) (upsert_status new ss) = filter (\<lambda>s. endpoint_id s = i) ss"
  by (induction ss) auto

lemma filter_absent:
  "i \<notin> set (map endpoint_id ss) \<Longrightarrow> filter (\<lambda>s. endpoint_id s = i) ss = []"
  by (induction ss) auto

lemma upsert_own:
  fixes new :: check_row
  shows "distinct (map endpoint_id ss) \<Longrightarrow>
   filter (\<lambda>s. endpoint_id s = endpoint_id new) (upsert_status new ss) = [new]"
proof (induction ss)
  case Nil
  then show ?case by simp
next
  case (Cons s ss)
  show ?case
  proof (cases "endpoint_id s = endpoint_id new")
    case True
    with Cons.prems have "endpoint_id new \<notin> set (map endpoint_id ss)" by simp
    then have "filter (\<lambda>s. endpoint_id s = endpoint_id new) ss = []" by (rule filter_absent)
    with True show ?thesis by (simp add: overwrite_is_new)
  next
    case False
    with Cons show ?thesis by simp
  qed
qed

lemma process_endpoint_effect:
  assumes "process_endpoint env db row = Inr db'"
  shows "\<exists>c. endpoint_id c = ep_id (fst row) \<and> checked_at c = now_utc_at env (fst row)
           \<and> checks db' = checks db @ [c]
           \<and> endpoint_statuses db' = upsert_status c (endpoint_statuses db)
           \<and> endpoints db' = endpoints db \<and> networks db' = networks db"
  using assms
  by (auto simp: process_endpoint_def Let_def split: sum.splits prod.splits)



lemma process_rows_effect:
  assumes "process_rows env db rows = Inr db'"
    and "distinct (map (\<lambda>row. ep_id (fst row)) rows)"
    and "distinct (map endpoint_id (endpoint_statuses db))"
  shows "\<exists>cs. checks db' = checks db @ cs
           \<and> map endpoint_id cs = map (\<lambda>row. ep_id (fst row)) rows
           \<and> map checked_at cs = map (\<lambda>row. now_utc_at env (fst row)) rows
           \<and> distinct (map endpoint_id (endpoint_statuses db'))
           \<and> (\<forall>c\<in>set cs. filter (\<lambda>s. endpoint_id s = endpoint_id c) (endpoint_statuses db') = [c])
           \<and> (\<forall>i. i \<notin> set (map (\<lambda>row. ep_id (fst row)) rows) \<longrightarrow>
                 filter (\<lambda>s. endpoint_id s = i) (endpoint_statuses db')
                   = filter (\<lambda>s. endpoint_id s = i) (endpoint_statuses db))
           \<and> endpoints db' = endpoints db \<and> networks db' = networks db"
  using assms
proof (induction rows arbitrary: db)
  case Nil
  then show ?case by simp
next
  case (Cons r rows)
  from Cons.prems(1) obtain db1 where r: "process_endpoint env db r = Inr db1"
    and rest: "process_rows env db1 rows = Inr db'"
    by (auto split: sum.splits)
  from process_endpoint_effect [OF r] obtain c where
    c: "endpoint_id c = ep_id (fst r)" "checked_at c = now_utc_at env (fst r)"
       "checks db1 = checks db @ [c]"
       "endpoint_statuses db1 = upsert_status c (endpoint_statuses db)"
       "endpoints db1 = endpoints db" "networks db1 = networks db"
    by blast
  have d1: "distinct (map endpoint_id (endpoint_statuses db1))"
    using Cons.prems(3) c(4) by (simp add: upsert_distinct)
  from Cons.prems(2) have dr: "distinct (map (\<lambda>row. ep_id (fst row)) rows)"
    and fresh: "ep_id (fst r) \<notin> set (map (\<lambda>row. ep_id (fst row)) rows)"
    by simp_all
  from Cons.IH [OF rest dr d1] obtain cs where
    cs: "checks db' = checks db1 @ cs"
        "map endpoint_id cs = map (\<lambda>row. ep_id (fst row)) rows"
        "map checked_at cs = map (\<lambda>row. now_utc_at env (fst row)) rows"
        "distinct (map endpoint_id (endpoint_statuses db'))"
        "\<forall>c\<in>set cs. filter (\<lambda>s. endpoint_id s = endpoint_id c) (endpoint_statuses db') = [c]"
        "\<forall>i. i \<notin> set (map (\<lambda>row. ep_id (fst row)) rows) \<longrightarrow>
                 filter (\<lambda>s. endpoint_id s = i) (endpoint_statuses db')
                   = filter (\<lambda>s. endpoint_id s = i) (endpoint_statuses db1)"
        "endpoints db' = endpoints db1" "networks db' = networks db1"
    by blast
  have own: "filter (\<lambda>s. endpoint_id s = endpoint_id c) (endpoint_statuses db') = [c]"
  proof -
    from fresh c(1) cs(6)
    have "filter (\<lambda>s. endpoint_id s = endpoint_id c) (endpoint_statuses db')
            = filter (\<lambda>s. endpoint_id s = endpoint_id c) (endpoint_statuses db1)"
      by simp
    also have "\<dots> = [c]"
      using upsert_own [OF Cons.prems(3), of c] c(4) by simp
    finally show ?thesis .
  qed
  have other: "filter (\<lambda>s. endpoint_id s = i) (endpoint_statuses db')
                 = filter (\<lambda>s. endpoint_id s = i) (endpoint_statuses db)"
    if "i \<notin> set (map (\<lambda>row. ep_id (fst row)) (r # rows))" for i
  proof -
    from that have a: "i \<noteq> endpoint_id c" and b: "i \<notin> set (map (\<lambda>row. ep_id (fst row)) rows)"
      using c(1) by simp_all
    from b cs(6) have "filter (\<lambda>s. endpoint_id s = i) (endpoint_statuses db')
            = filter (\<lambda>s. endpoint_id s = i) (endpoint_statuses db1)"
      by simp
    with a c(4) show ?thesis by (simp add: upsert_other)
  qed
  have "checks db' = checks db @ (c # cs)"
    using cs(1) c(3) by simp
  moreover have "map endpoint_id (c # cs) = map (\<lambda>row. ep_id (fst row)) (r # rows)"
    using cs(2) c(1) by simp
  moreover have "map checked_at (c # cs) = map (\<lambda>row. now_utc_at env (fst row)) (r # rows)"
    using cs(3) c(2) by simp
  moreover have "\<forall>k\<in>set (c # cs). filter (\<lambda>s. endpoint_id s = endpoint_id k) (endpoint_statuses db') = [k]"
    using own cs(5) by simp
  moreover have "endpoints db' = endpoints db" "networks db' = networks db"
    using cs(7,8) c(5,6) by simp_all
  ultimately show ?case
    using cs(4) other by blast
qed

lemma join_one_endpoint:
  "distinct (map net_id nets) \<Longrightarrow>
   length [net \<leftarrow> nets. ep_network_id ep = net_id net \<and> ep_enabled ep] \<le> Suc 0"
  by (induction nets) (auto simp: filter_empty_conv)

lemma join_ids_one_endpoint:
  "map (\<lambda>row. ep_id (fst row))
     [(ep, net). net \<leftarrow> nets, ep_network_id ep = net_id net \<and> ep_enabled ep]
   = replicate (length [net \<leftarrow> nets. ep_network_id ep = net_id net \<and> ep_enabled ep]) (ep_id ep)"
  by (induction nets) simp_all

lemma join_ids_subset:
  "set (map (\<lambda>row. ep_id (fst row))
     [(ep, net). ep \<leftarrow> eps, net \<leftarrow> nets, ep_network_id ep = net_id net \<and> ep_enabled ep])
   \<subseteq> set (map ep_id eps)"
  by (induction eps) auto

lemma join_ids_distinct:
  assumes "distinct (map net_id nets)" and "distinct (map ep_id eps)"
  shows "distinct (map (\<lambda>row. ep_id (fst row))
     [(ep, net). ep \<leftarrow> eps, net \<leftarrow> nets, ep_network_id ep = net_id net \<and> ep_enabled ep])"
  using assms(2)
proof (induction eps)
  case Nil
  then show ?case by simp
next
  case (Cons e eps)
  define one where "one = map (\<lambda>row. ep_id (fst row))
     [(e, net). net \<leftarrow> nets, ep_network_id e = net_id net \<and> ep_enabled e]"
  define rest where "rest = map (\<lambda>row. ep_id (fst row))
     [(ep, net). ep \<leftarrow> eps, net \<leftarrow> nets, ep_network_id ep = net_id net \<and> ep_enabled ep]"
  define n where "n = length [net \<leftarrow> nets. ep_network_id e = net_id net \<and> ep_enabled e]"
  have split: "map (\<lambda>row. ep_id (fst row))
     [(ep, net). ep \<leftarrow> e # eps, net \<leftarrow> nets, ep_network_id ep = net_id net \<and> ep_enabled ep]
     = one @ rest"
    by (simp add: one_def rest_def)
  have one: "one = replicate n (ep_id e)"
    unfolding one_def n_def by (rule join_ids_one_endpoint)
  have "n \<le> Suc 0"
    unfolding n_def by (rule join_one_endpoint [OF assms(1)])
  then have "n = 0 \<or> n = Suc 0" by arith
  with one have d1: "distinct one" and s1: "set one \<subseteq> {ep_id e}" by auto
  have d2: "distinct rest" unfolding rest_def using Cons by simp
  have "set rest \<subseteq> set (map ep_id eps)" unfolding rest_def by (rule join_ids_subset)
  with Cons.prems have "ep_id e \<notin> set rest" by auto
  with s1 have "set one \<inter> set rest = {}" by auto
  with d1 d2 have "distinct (one @ rest)" by simp
  then show ?case by (simp only: split)
qed

lemma enabled_rows_distinct:
  assumes "distinct (map ep_id (endpoints db))" and "distinct (map net_id (networks db))"
  shows "distinct (map (\<lambda>row. ep_id (fst row)) (enabled_rows db limit))"
  unfolding enabled_rows_def take_map [symmetric]
  by (rule distinct_take) (rule join_ids_distinct [OF assms(2) assms(1)])







lemma filter_distinct_key:
  "distinct (map f xs) \<Longrightarrow> x \<in> set xs \<Longrightarrow> filter (\<lambda>y. f y = f x) xs = [x]"
proof (induction xs)
  case Nil
  then show ?case by simp
next
  case (Cons a xs)
  show ?case
  proof (cases "x = a")
    case True
    with Cons.prems have "f a \<notin> f ` set xs" by simp
    then have "\<forall>y\<in>set xs. f y \<noteq> f a" by (metis imageI)
    then have "filter (\<lambda>y. f y = f a) xs = []" by (simp add: filter_empty_conv)
    with True show ?thesis by simp
  next
    case False
    with Cons.prems have "x \<in> set xs" and "f a \<noteq> f x" by auto
    with Cons show ?thesis by simp
  qed
qed

lemma paired_maps:
  "map f cs = map f' rows \<Longrightarrow> map g cs = map g' rows \<Longrightarrow>
   map (\<lambda>c. (f c, g c)) cs = map (\<lambda>r. (f' r, g' r)) rows"
  by (induction cs arbitrary: rows) auto

lemma process_rows_tables:
  "process_rows env db rows = Inr db' \<Longrightarrow>
   endpoints db' = endpoints db \<and> networks db' = networks db"
proof (induction rows arbitrary: db)
  case Nil
  then show ?case by simp
next
  case (Cons r rows)
  from Cons.prems obtain db1 where r: "process_endpoint env db r = Inr db1"
    and rest: "process_rows env db1 rows = Inr db'"
    by (auto split: sum.splits)
  from process_endpoint_effect [OF r] have "endpoints db1 = endpoints db \<and> networks db1 = networks db"
    by blast
  with Cons.IH [OF rest] show ?case by simp
qed

lemma main_loop_iteration_tables:
  "endpoints (main_loop_iteration env db) = endpoints db
   \<and> networks (main_loop_iteration env db) = networks db"
proof (cases "process_batch env db")
  case (Inl e)
  then show ?thesis by (simp add: main_loop_iteration_def)
next
  case (Inr db')
  have "endpoints db' = endpoints db \<and> networks db' = networks db"
  proof (cases "enabled_rows db (batch_limit env) = []")
    case True
    with Inr show ?thesis by (simp add: process_batch_def)
  next
    case False
    with Inr have "process_rows env db (enabled_rows db (batch_limit env)) = Inr db'"
      by (simp add: process_batch_def Let_def)
    then show ?thesis by (rule process_rows_tables)
  qed
  with Inr show ?thesis by (simp add: main_loop_iteration_def)
qed

lemma batch_row_status:
  assumes rows: "process_rows env db rows = Inr db'"
    and dr: "distinct (map (\<lambda>row. ep_id (fst row)) rows)"
    and inv: "distinct (map endpoint_id (endpoint_statuses db))"
    and row: "row \<in> set rows"
  shows "\<exists>c. filter (\<lambda>s. endpoint_id s = ep_id (fst row)) (endpoint_statuses db') = [c]
           \<and> filter (\<lambda>k. endpoint_id k = ep_id (fst row)) (drop (length (checks db)) (checks db')) = [c]
           \<and> take (length (checks db)) (checks db') = checks db
           \<and> last (filter (\<lambda>k. endpoint_id k = ep_id (fst row)) (checks db')) = c
           \<and> checked_at c = now_utc_at env (fst row)"
proof -
  from process_rows_effect [OF rows dr inv] obtain cs where
    cs: "checks db' = checks db @ cs"
        "map endpoint_id cs = map (\<lambda>row. ep_id (fst row)) rows"
        "map checked_at cs = map (\<lambda>row. now_utc_at env (fst row)) rows"
        "\<forall>c\<in>set cs. filter (\<lambda>s. endpoint_id s = endpoint_id c) (endpoint_statuses db') = [c]"
    by blast
  from row have "ep_id (fst row) \<in> set (map endpoint_id cs)"
    by (simp add: cs(2))
  then obtain c where c: "c \<in> set cs" "endpoint_id c = ep_id (fst row)"
    by auto
  from dr cs(2) have dc: "distinct (map endpoint_id cs)" by simp
  have own: "filter (\<lambda>k. endpoint_id k = ep_id (fst row)) cs = [c]"
    using filter_distinct_key [OF dc c(1)] c(2) by simp
  have st: "filter (\<lambda>s. endpoint_id s = ep_id (fst row)) (endpoint_statuses db') = [c]"
    using cs(4) c by auto
  have "map (\<lambda>c. (endpoint_id c, checked_at c)) cs
          = map (\<lambda>r. (ep_id (fst r), now_utc_at env (fst r))) rows"
    using cs(2) cs(3) by (rule paired_maps)
  with c(1) have "(endpoint_id c, checked_at c)
     \<in> set (map (\<lambda>r. (ep_id (fst r), now_utc_at env (fst r))) rows)"
    by (metis (no_types, lifting) image_eqI list.set_map)
  then obtain r where r: "r \<in> set rows" "ep_id (fst r) = endpoint_id c"
    "now_utc_at env (fst r) = checked_at c"
    by auto
  from dr have "inj_on (\<lambda>row. ep_id (fst row)) (set rows)"
    by (simp add: distinct_map)
  with r(1) row r(2) c(2) have "r = row"
    by (auto dest: inj_onD)
  with r(3) have at: "checked_at c = now_utc_at env (fst row)" by simp
  have dr': "drop (length (checks db)) (checks db') = cs" by (simp add: cs(1))
  have tk: "take (length (checks db)) (checks db') = checks db" by (simp add: cs(1))
  have "filter (\<lambda>k. endpoint_id k = ep_id (fst row)) (checks db')
          = filter (\<lambda>k. endpoint_id k = ep_id (fst row)) (checks db) @ [c]"
    by (simp add: cs(1) own)
  then have la: "last (filter (\<lambda>k. endpoint_id k = ep_id (fst row)) (checks db')) = c"
    by simp
  from st own dr' tk la at show ?thesis by simp
qed

lemma iteration_keeps_one_status:
  assumes "distinct (map ep_id (endpoints db))" and "distinct (map net_id (networks db))"
    and "distinct (map endpoint_id (endpoint_statuses db))"
  shows "distinct (map endpoint_id (endpoint_statuses (main_loop_iteration env db)))"
proof (cases "process_batch env db")
  case (Inl e)
  with assms(3) show ?thesis by (simp add: main_loop_iteration_def)
next
  case (Inr db')
  show ?thesis
  proof (cases "enabled_rows db (batch_limit env) = []")
    case True
    with Inr assms(3) show ?thesis by (simp add: main_loop_iteration_def process_batch_def)
  next
    case False
    with Inr have "process_rows env db (enabled_rows db (batch_limit env)) = Inr db'"
      by (simp add: process_batch_def Let_def)
    from process_rows_effect [OF this enabled_rows_distinct [OF assms(1) assms(2)] assms(3)]
    have "distinct (map endpoint_id (endpoint_statuses db'))" by blast
    with Inr show ?thesis by (simp add: main_loop_iteration_def)
  qed
qed

lemma main_loop_keeps_one_status:
  assumes "distinct (map ep_id (endpoints db))" and "distinct (map net_id (networks db))"
    and "distinct (map endpoint_id (endpoint_statuses db))"
  shows "distinct (map endpoint_id (endpoint_statuses (main_loop envs n db)))
         \<and> endpoints (main_loop envs n db) = endpoints db
         \<and> networks (main_loop envs n db) = networks db"
proof (induction n)
  case 0
  with assms show ?case by simp
next
  case (Suc n)
  then show ?case
    using iteration_keeps_one_status [of "main_loop envs n db" "envs n"]
      main_loop_iteration_tables [of "envs n" "main_loop envs n db"] assms(1) assms(2)
    by simp
qed


text \<open>
  C9. Let endpoint ids and network ids be unique (they are primary keys) and let the status
  table hold at most one row per endpoint. Then after a pass of the loop, and after any
  number of passes, the status table still holds at most one row per endpoint. After a
  committed batch, every selected endpoint has exactly one status row; that row is equal,
  field by field, to the one check row appended for the endpoint in this batch, which is
  the last check of the endpoint in insertion order; its \<open>checked_at\<close> is the one clock
  reading taken for the endpoint; and the earlier check rows are unchanged. Hence the
  \<open>checked_at\<close> of the status row is not before that of the most recent check.
\<close>

theorem status_row_agrees_with_appended_check:
  assumes "distinct (map ep_id (endpoints db))"
    and "distinct (map net_id (networks db))"
    and "distinct (map endpoint_id (endpoint_statuses db))"
  shows "distinct (map endpoint_id (endpoint_statuses (main_loop_iteration env db)))
    \<and> distinct (map endpoint_id (endpoint_statuses (main_loop envs n db)))
    \<and> (process_batch env db = Inr db' \<and> row \<in> set (enabled_rows db (batch_limit env)) \<longrightarrow>
        (\<exists>c. filter (\<lambda>s. endpoint_id s = ep_id (fst row)) (endpoint_statuses db') = [c]
           \<and> filter (\<lambda>k. endpoint_id k = ep_id (fst row))
                (drop (length (checks db)) (checks db')) = [c]
           \<and> take (length (checks db)) (checks db') = checks db
           \<and> last (filter (\<lambda>k. endpoint_id k = ep_id (fst row)) (checks db')) = c
           \<and> checked_at c = now_utc_at env (fst row)
           \<and> (\<forall>s\<in>set (endpoint_statuses db'). endpoint_id s = ep_id (fst row) \<longrightarrow>
                 s = c
                 \<and> checked_at s
                     \<ge> checked_at (last (filter (\<lambda>k. endpoint_id k = ep_id (fst row)) (checks db'))))))"
proof -
  have a: "distinct (map endpoint_id (endpoint_statuses (main_loop_iteration env db)))"
    using assms by (rule iteration_keeps_one_status)
  have b: "distinct (map endpoint_id (endpoint_statuses (main_loop envs n db)))"
    using main_loop_keeps_one_status [OF assms] by blast
  have c: "\<exists>c. filter (\<lambda>s. endpoint_id s = ep_id (fst row)) (endpoint_statuses db') = [c]
           \<and> filter (\<lambda>k. endpoint_id k = ep_id (fst row))
                (drop (length (checks db)) (checks db')) = [c]
           \<and> take (length (checks db)) (checks db') = checks db
           \<and> last (filter (\<lambda>k. endpoint_id k = ep_id (fst row)) (checks db')) = c
           \<and> checked_at c = now_utc_at env (fst row)
           \<and> (\<forall>s\<in>set (endpoint_statuses db'). endpoint_id s = ep_id (fst row) \<longrightarrow>
                 s = c
                 \<and> checked_at s
                     \<ge> checked_at (last (filter (\<lambda>k. endpoint_id k = ep_id (fst row)) (checks db'))))"
    if p: "process_batch env db = Inr db'" and r: "row \<in> set (enabled_rows db (batch_limit env))"
  proof -
    from r have "enabled_rows db (batch_limit env) \<noteq> []" by auto
    with p have rows: "process_rows env db (enabled_rows db (batch_limit env)) = Inr db'"
      by (simp add: process_batch_def Let_def)
    from batch_row_status [OF rows enabled_rows_distinct [OF assms(1) assms(2)] assms(3) r]
    obtain c where
      c: "filter (\<lambda>s. endpoint_id s = ep_id (fst row)) (endpoint_statuses db') = [c]"
         "filter (\<lambda>k. endpoint_id k = ep_id (fst row)) (drop (length (checks db)) (checks db')) = [c]"
         "take (length (checks db)) (checks db') = checks db"
         "last (filter (\<lambda>k. endpoint_id k = ep_id (fst row)) (checks db')) = c"
         "checked_at c = now_utc_at env (fst row)"
      by blast
    have "s = c" if "s \<in> set (endpoint_statuses db')" and "endpoint_id s = ep_id (fst row)" for s
    proof -
      from that have "s \<in> set (filter (\<lambda>s. endpoint_id s = ep_id (fst row)) (endpoint_statuses db'))"
        by simp
      then show ?thesis by (simp add: c(1))
    qed
    with c show ?thesis by auto
  qed
  from a b c show ?thesis by blast
qed

theorem status_row_agrees_with_appended_check_witness:
  "distinct (map ep_id (endpoints two_endpoint_db))
   \<and> distinct (map net_id (networks two_endpoint_db))
   \<and> distinct (map endpoint_id (endpoint_statuses two_endpoint_db))
   \<and> process_batch
        \<lparr>rpc_probe = (\<lambda>url expected. Inr (True, Some 200, Some 0, PStr ''100'', None)),
         api_probe = (\<lambda>url expected. Inr (True, Some 200, None, PNone, None)),
         now_utc_at = (\<lambda>ep. 63839761445000000 + ep_id ep),
         batch_limit = 100\<rparr>
        two_endpoint_db
      = Inr (main_loop_iteration
        \<lparr>rpc_probe = (\<lambda>url expected. Inr (True, Some 200, Some 0, PStr ''100'', None)),
         api_probe = (\<lambda>url expected. Inr (True, Some 200, None, PNone, None)),
         now_utc_at = (\<lambda>ep. 63839761445000000 + ep_id ep),
         batch_limit = 100\<rparr>
        two_endpoint_db)
   \<and> (endpoint_b, hub_network) \<in> set (enabled_rows two_endpoint_db 100)
   \<and> distinct (map endpoint_id (endpoint_statuses
        (main_loop_iteration
           \<lparr>rpc_probe = (\<lambda>url expected. Inr (True, Some 200, Some 0, PStr ''100'', None)),
            api_probe = (\<lambda>url expected. Inr (True, Some 200, None, PNone, None)),
            now_utc_at = (\<lambda>ep. 63839761445000000 + ep_id ep),
            batch_limit = 100\<rparr>
           two_endpoint_db)))
   \<and> filter (\<lambda>s. endpoint_id s = 2) (endpoint_statuses
        (main_loop_iteration
           \<lparr>rpc_probe = (\<lambda>url expected. Inr (True, Some 200, Some 0, PStr ''100'', None)),
            api_probe = (\<lambda>url expected. Inr (True, Some 200, None, PNone, None)),
            now_utc_at = (\<lambda>ep. 63839761445000000 + ep_id ep),
            batch_limit = 100\<rparr>
           two_endpoint_db))
      = [last (filter (\<lambda>k. endpoint_id k = 2) (checks
        (main_loop_iteration
           \<lparr>rpc_probe = (\<lambda>url expected. Inr (True, Some 200, Some 0, PStr ''100'', None)),
            api_probe = (\<lambda>url expected. Inr (True, Some 200, None, PNone, None)),
            now_utc_at = (\<lambda>ep. 63839761445000000 + ep_id ep),
            batch_limit = 100\<rparr>
           two_endpoint_db)))]
   \<and> checked_at (last (filter (\<lambda>k. endpoint_id k = 2) (checks
        (main_loop_iteration
           \<lparr>rpc_probe = (\<lambda>url expected. Inr (True, Some 200, Some 0, PStr ''100'', None)),
            api_probe = (\<lambda>url expected. Inr (True, Some 200, None, PNone, None)),
            now_utc_at = (\<lambda>ep. 63839761445000000 + ep_id ep),
            batch_limit = 100\<rparr>
           two_endpoint_db))))
      = 63839761445000002"
proof -
  let ?env = "\<lparr>rpc_probe = (\<lambda>url expected. Inr (True, Some 200, Some 0, PStr ''100'', None)),
            api_probe = (\<lambda>url expected. Inr (True, Some 200, None, PNone, None)),
            now_utc_at = (\<lambda>ep. 63839761445000000 + ep_id ep),
            batch_limit = 100\<rparr>"
  let ?db' = "main_loop_iteration ?env two_endpoint_db"
  let ?row = "(endpoint_b, hub_network)"
  have h1: "distinct (map ep_id (endpoints two_endpoint_db))"
    by (simp add: two_endpoint_db_def endpoint_a_def endpoint_b_def)
  have h2: "distinct (map net_id (networks two_endpoint_db))"
    by (simp add: two_endpoint_db_def)
  have h3: "distinct (map endpoint_id (endpoint_statuses two_endpoint_db))"
    by (simp add: two_endpoint_db_def)
  have "\<exists>d. process_batch ?env two_endpoint_db = Inr d"
    by (simp add: process_batch_def enabled_rows_def two_endpoint_db_def endpoint_a_def
          endpoint_b_def hub_network_def process_endpoint_def probe_endpoint_def
          expected_chain_id_of_def Let_def)
  then have p: "process_batch ?env two_endpoint_db = Inr ?db'"
    by (auto simp: main_loop_iteration_def)
  have r: "?row \<in> set (enabled_rows two_endpoint_db (batch_limit ?env))"
    by (simp add: enabled_rows_def two_endpoint_db_def endpoint_a_def endpoint_b_def
          hub_network_def)
  have i: "ep_id (fst ?row) = 2" by (simp add: endpoint_b_def)
  have t: "now_utc_at ?env (fst ?row) = 63839761445000002" by (simp add: endpoint_b_def)
  note c = status_row_agrees_with_appended_check
    [OF h1 h2 h3, where env = ?env and db' = ?db' and row = ?row]
  from c have d: "distinct (map endpoint_id (endpoint_statuses ?db'))"
    by blast
  from c p r obtain k where
    k: "filter (\<lambda>s. endpoint_id s = ep_id (fst ?row)) (endpoint_statuses ?db') = [k]"
       "last (filter (\<lambda>k. endpoint_id k = ep_id (fst ?row)) (checks ?db')) = k"
       "checked_at k = now_utc_at ?env (fst ?row)"
    by blast
  from k(1) k(2) have e: "filter (\<lambda>s. endpoint_id s = ep_id (fst ?row)) (endpoint_statuses ?db')
      = [last (filter (\<lambda>k. endpoint_id k = ep_id (fst ?row)) (checks ?db'))]"
    by (simp only:)
  from k(2) k(3) have f: "checked_at (last (filter (\<lambda>k. endpoint_id k = ep_id (fst ?row)) (checks ?db')))
      = now_utc_at ?env (fst ?row)"
    by (simp only:)
  from r have r': "?row \<in> set (enabled_rows two_endpoint_db 100)" by simp
  from h1 h2 h3 p r' d e f show ?thesis
    by (simp only: i t simp_thms)
qed

end
